theory Spec2Isabelle
  imports Main "HOL-Library.Word" "HOL-Library.Sublist" "HOL-Library.AList"
begin

section \<open>The legacy relayer core: data model\<close>

text \<open>
  Go's \<open>int64\<close> and \<open>uint64\<close> are 64-bit words: \<open>+\<close> and \<open>-\<close> wrap around, and the
  conversion \<open>int64(x)\<close> of a \<open>uint64\<close> keeps the bits. Heights are \<open>int64\<close>, packet
  sequences and rollapp heights are \<open>uint64\<close>.
\<close>

type_synonym int64 = "64 word"
type_synonym uint64 = "64 word"

text \<open>
  A Go \<open>error\<close> value is observed by the code in four ways only: its message
  (\<open>err.Error()\<close>), \<open>errors.Is(err, context.Canceled)\<close>,
  \<open>errors.Is(err, context.DeadlineExceeded)\<close> and \<open>status.FromError(err)\<close>. The record
  holds the answers; a nil error is \<open>None\<close> of \<open>error option\<close>.
\<close>

datatype codes = OK | Canceled | Unknown | InvalidArgument | DeadlineExceeded | NotFound
  | AlreadyExists | PermissionDenied | ResourceExhausted | FailedPrecondition | Aborted
  | OutOfRange | Unimplemented | Internal | Unavailable | DataLoss | Unauthenticated

record error =
  Error :: string
  Is_Canceled :: bool
  Is_DeadlineExceeded :: bool
  GRPCStatus :: "codes option"

text \<open>\<open>fmt.Errorf\<close> without \<open>%w\<close>: a fresh error that wraps nothing.\<close>

definition fmt_Errorf :: "string \<Rightarrow> error" where
  "fmt_Errorf msg =
     \<lparr>Error = msg, Is_Canceled = False, Is_DeadlineExceeded = False, GRPCStatus = None\<rparr>"

text \<open>
  \<open>fmt.Errorf("...: %w", err)\<close>: the message is prefixed, and \<open>errors.Is\<close> still finds
  what \<open>err\<close> wraps.
\<close>

definition fmt_Errorf_w :: "string \<Rightarrow> error \<Rightarrow> error" where
  "fmt_Errorf_w msg err = err\<lparr>Error := msg @ Error err\<rparr>"

text \<open>\<open>strings.Contains(s, substr)\<close>, by scanning \<open>s\<close> from the left.\<close>

fun strings_Contains :: "string \<Rightarrow> string \<Rightarrow> bool" where
  "strings_Contains [] substr = (substr = [])"
| "strings_Contains (c # s) substr = (prefix substr (c # s) \<or> strings_Contains s substr)"

text \<open>The channel states of ibc-go's \<open>types.State\<close>.\<close>

datatype State = UNINITIALIZED | INIT | TRYOPEN | OPEN | CLOSED

record Counterparty =
  CounterpartyPortId :: string
  CounterpartyChannelId :: string

record IdentifiedChannel =
  State :: State
  Counterparty :: Counterparty
  PortId :: string
  ChannelId :: string

record ActiveChannel =
  channel :: IdentifiedChannel
  active :: bool

record ChannelFilter =
  Rule :: string
  ChannelList :: "string list"

section \<open>Channel filter\<close>

text \<open>
  Modelled from the spec: the rule constant \<open>allowList\<close> is declared in a file of the
  package that is not among the sources. The spec names three rules, \<open>allow\<close>, \<open>deny\<close>
  and \<open>none\<close>; of the values of the two constants only the fact that they differ matters
  below.
\<close>

definition allowList :: string where
  "allowList = ''allowlist''"

text \<open>
  Modelled from the spec: the rule constant \<open>denyList\<close>, declared beside \<open>allowList\<close>.
\<close>

definition denyList :: string where
  "denyList = ''denylist''"

text \<open>
  Modelled from the spec: the method \<open>InChannelList\<close> of \<open>ChannelFilter\<close> is declared beside
  the two constants; the spec reads it as \<open>channel_id \<in> list\<close>.
\<close>

definition InChannelList :: "ChannelFilter \<Rightarrow> string \<Rightarrow> bool" where
  "InChannelList cf channelID = (channelID \<in> set (ChannelList cf))"

text \<open>
  The two loops of \<open>applyChannelFilterRule\<close>, with \<open>filteredChans\<close> as the accumulator:
  \<open>append(filteredChans, c)\<close> adds at the end. Every rule other than the two constants
  takes the \<open>default\<close> branch, which returns the channels as they are.
\<close>

fun allow_loop ::
  "ChannelFilter \<Rightarrow> IdentifiedChannel list \<Rightarrow> IdentifiedChannel list \<Rightarrow> IdentifiedChannel list"
where
  "allow_loop fltr [] filteredChans = filteredChans"
| "allow_loop fltr (c # channels) filteredChans =
     (if InChannelList fltr (ChannelId c)
      then allow_loop fltr channels (filteredChans @ [c])
      else allow_loop fltr channels filteredChans)"

fun deny_loop ::
  "ChannelFilter \<Rightarrow> IdentifiedChannel list \<Rightarrow> IdentifiedChannel list \<Rightarrow> IdentifiedChannel list"
where
  "deny_loop fltr [] filteredChans = filteredChans"
| "deny_loop fltr (c # channels) filteredChans =
     (if InChannelList fltr (ChannelId c)
      then deny_loop fltr channels filteredChans
      else deny_loop fltr channels (filteredChans @ [c]))"

definition applyChannelFilterRule ::
  "ChannelFilter \<Rightarrow> IdentifiedChannel list \<Rightarrow> IdentifiedChannel list"
where
  "applyChannelFilterRule fltr channels =
     (if Rule fltr = allowList then allow_loop fltr channels []
      else if Rule fltr = denyList then deny_loop fltr channels []
      else channels)"

section \<open>Settlement client\<close>

record StateInfo =
  StartHeight :: uint64
  NumBlocks :: uint64

record QueryGetLatestFinalizedStateInfoResponse =
  StateInfo :: StateInfo

text \<open>
  \<open>status.FromError(err)\<close> for a non-nil \<open>err\<close>: the status code and \<open>ok\<close>; an error that
  carries no gRPC status gives \<open>(Unknown, false)\<close>.
\<close>

definition status_FromError :: "error \<Rightarrow> codes \<times> bool" where
  "status_FromError err =
     (case GRPCStatus err of Some c \<Rightarrow> (c, True) | None \<Rightarrow> (Unknown, False))"

text \<open>
  \<open>QueryLatestFinalizedHeight\<close>. The gRPC query \<open>LatestFinalizedStateInfo\<close> is a parameter:
  it answers a rollapp id with the pair \<open>(res, err)\<close> of a response pointer and an error,
  either of which may be nil. The sum \<open>StartHeight + NumBlocks - 1\<close> is computed in
  \<open>uint64\<close> and converted to \<open>int64\<close>.
\<close>

definition QueryLatestFinalizedHeight ::
  "(string \<Rightarrow> QueryGetLatestFinalizedStateInfoResponse option \<times> error option) \<Rightarrow>
   string \<Rightarrow> int64 \<times> error option"
where
  "QueryLatestFinalizedHeight LatestFinalizedStateInfo rollapId =
     (case LatestFinalizedStateInfo rollapId of
        (res, Some err) \<Rightarrow>
          (case status_FromError err of
             (st, ok) \<Rightarrow> if ok \<and> st = NotFound then (- 1, None) else (- 1, Some err))
      | (None, None) \<Rightarrow> (- 1, Some (fmt_Errorf ''can't get latest-finalized-state info''))
      | (Some res, None) \<Rightarrow>
          (StartHeight (StateInfo res) + NumBlocks (StateInfo res) - 1, None))"

section \<open>Packet and ack passes\<close>

record Chain =
  ChainID :: string
  ConnectionID :: string

record RelaySequences =
  Src :: "uint64 list"
  Dst :: "uint64 list"

text \<open>
  Modelled from the spec: the method \<open>Empty\<close> of the sequence set is declared outside the
  sources; the spec has it empty iff both sides are fully drained.
\<close>

definition Empty :: "RelaySequences \<Rightarrow> bool" where
  "Empty sp = (Src sp = [] \<and> Dst sp = [])"

text \<open>
  What a pass does besides returning is kept as a trace: the log lines it writes (level
  and message) and the calls it makes into the rest of the package, with the heights it
  passes.
\<close>

datatype level = DebugLevel | InfoLevel | WarnLevel | ErrorLevel

datatype event =
    Log level string
  | Call_QueryLatestHeights
  | Call_UnrelayedSequences int64 int64
  | Call_RelayPackets int64 int64 RelaySequences
  | Call_unrelayedAcknowledgements Chain string string int64 Chain string string int64
  | Call_relayAcknowledgements Chain string string int64 "uint64 list" Chain string string

text \<open>
  The functions of the package that a pass calls and that are not among the sources are
  the fields of the environment of one pass. \<open>QueryLatestHeights\<close> gives an error or the
  pair \<open>(srch, dsth)\<close>. \<open>unrelayedAcknowledgements\<close> receives the value of the slice behind
  its pointer argument and gives back \<open>(sequences, err)\<close> and the value it leaves behind
  the pointer. The context, the logger, \<open>maxTxSize\<close>, \<open>maxMsgLength\<close> and \<open>memo\<close> are
  passed through unchanged by every function below and are part of the environment.
  Slices are modelled by their contents; none of the functions below writes an element
  of a slice.
\<close>

record env =
  QueryLatestHeights :: "error + int64 \<times> int64"
  UnrelayedSequences :: "int64 \<Rightarrow> int64 \<Rightarrow> IdentifiedChannel \<Rightarrow> RelaySequences"
  RelayPackets :: "int64 \<Rightarrow> int64 \<Rightarrow> RelaySequences \<Rightarrow> IdentifiedChannel \<Rightarrow> error option"
  unrelayedAcknowledgements ::
    "Chain \<Rightarrow> string \<Rightarrow> string \<Rightarrow> int64 \<Rightarrow> Chain \<Rightarrow> string \<Rightarrow> string \<Rightarrow> int64 \<Rightarrow>
     uint64 list \<Rightarrow> uint64 list \<times> error option \<times> uint64 list"
  relayAcknowledgements ::
    "Chain \<Rightarrow> string \<Rightarrow> string \<Rightarrow> int64 \<Rightarrow> uint64 list \<Rightarrow> Chain \<Rightarrow> string \<Rightarrow> string \<Rightarrow>
     error option"

text \<open>The tail of \<open>relayUnrelayedPackets\<close>: what it does with a non-nil error of \<open>RelayPackets\<close>.\<close>

definition RelayPackets_failed :: "error \<Rightarrow> bool \<times> event list" where
  "RelayPackets_failed err =
     (if Is_DeadlineExceeded err \<or> Is_Canceled err
      then (False,
        [Log WarnLevel ''Context finished while waiting for RelayPackets to complete''])
      else if strings_Contains (Error err) ''Internal error: transaction indexing is disabled''
      then (False, [Log WarnLevel ''Remote server needs to enable transaction indexing''])
      else (True, [Log WarnLevel ''Relay packets error'']))"

text \<open>\<open>relayUnrelayedPackets\<close>: the boolean it returns and its trace.\<close>

definition relayUnrelayedPackets ::
  "env \<Rightarrow> Chain \<Rightarrow> Chain \<Rightarrow> IdentifiedChannel \<Rightarrow> bool \<times> event list"
where
  "relayUnrelayedPackets e src dst srcChannel =
     (case QueryLatestHeights e of
        Inl err \<Rightarrow>
          (False, [Call_QueryLatestHeights, Log WarnLevel ''QueryLatestHeights error''])
      | Inr (srch, dsth) \<Rightarrow>
          (let sp = UnrelayedSequences e (srch - 1) (dsth - 1) srcChannel;
               t0 = [Call_QueryLatestHeights, Call_UnrelayedSequences (srch - 1) (dsth - 1)]
           in if Empty sp then (True, t0 @ [Log DebugLevel ''No packets in queue''])
              else
                (let t1 = t0 @
                       (if Src sp \<noteq> [] then [Log InfoLevel ''Unrelayed source packets'']
                        else []) @
                       (if Dst sp \<noteq> [] then [Log InfoLevel ''Unrelayed destination packets'']
                        else []) @
                       [Call_RelayPackets srch dsth sp]
                 in case RelayPackets e srch dsth sp srcChannel of
                      Some err \<Rightarrow>
                        (case RelayPackets_failed err of (ok, t2) \<Rightarrow> (ok, t1 @ t2))
                    | None \<Rightarrow> (True, t1))))"

text \<open>
  A call either returns a value or panics with the error it was given. Nothing in the
  sources calls \<open>recover\<close>.
\<close>

datatype 'a outcome = Panic error | Return 'a

text \<open>
  The end of \<open>relayUnrelayedAcksHelper\<close>: with \<open>err\<close> nil the candidate is written back
  through the pointer, otherwise the caller's slice keeps its value; \<open>err\<close> is returned.
  The result is the returned error, the value behind the caller's pointer and the trace.
\<close>

definition update_relayed ::
  "error option \<Rightarrow> uint64 list \<Rightarrow> uint64 list \<Rightarrow> event list \<Rightarrow>
   error option outcome \<times> uint64 list \<times> event list"
where
  "update_relayed err relayedAckSequences relayedAckSequencesCandidated t =
     (case err of
        Some e \<Rightarrow>
          (Return (Some e), relayedAckSequences,
           t @ [Log WarnLevel ''unrelayedAcknowledgements failed''])
      | None \<Rightarrow> (Return None, relayedAckSequencesCandidated, t))"

definition relayUnrelayedAcksHelper ::
  "env \<Rightarrow> Chain \<Rightarrow> string \<Rightarrow> string \<Rightarrow> int64 \<Rightarrow> Chain \<Rightarrow> string \<Rightarrow> string \<Rightarrow> int64 \<Rightarrow>
   uint64 list \<Rightarrow> error option outcome \<times> uint64 list \<times> event list"
where
  "relayUnrelayedAcksHelper e src srcChannelId srcPortId srch dst dstChannelId dstPortId dsth
       relayedAckSequences =
     (let adjustedSrch = srch - 1;
          adjustedDsth = dsth - 1;
          t0 = [Call_unrelayedAcknowledgements src srcChannelId srcPortId adjustedSrch
                  dst dstChannelId dstPortId adjustedDsth]
      in case unrelayedAcknowledgements e src srcChannelId srcPortId adjustedSrch
                dst dstChannelId dstPortId adjustedDsth relayedAckSequences of
           (sequences, err, relayedAckSequencesCandidated) \<Rightarrow>
             if sequences \<noteq> [] then
               (case err of
                  Some perr \<Rightarrow>
                    (Panic perr, relayedAckSequences,
                     t0 @ [Log ErrorLevel
                       ''unrelayedAcknowledgements returned: len(sequences)>0, but err != nil''])
                | None \<Rightarrow>
                    (let t1 = t0 @ [Call_relayAcknowledgements src srcChannelId srcPortId srch
                                      sequences dst dstChannelId dstPortId]
                     in case relayAcknowledgements e src srcChannelId srcPortId srch sequences
                               dst dstChannelId dstPortId of
                          Some rerr \<Rightarrow>
                            if Is_DeadlineExceeded rerr \<or> Is_Canceled rerr
                            then (Return (Some rerr), relayedAckSequences,
                                  t1 @ [Log WarnLevel
                                    ''Context finished while waiting for RelayAcknowledgements to complete''])
                            else update_relayed (Some rerr) relayedAckSequences
                                   relayedAckSequencesCandidated
                                   (t1 @ [Log WarnLevel ''Relay acknowledgements error''])
                        | None \<Rightarrow>
                            update_relayed None relayedAckSequences
                              relayedAckSequencesCandidated t1))
             else update_relayed err relayedAckSequences relayedAckSequencesCandidated
                    (t0 @ [Log DebugLevel ''No acknowledgements in queue'']))"

text \<open>
  \<open>relayUnrelayedAcks\<close> runs the helper once per direction, each in a goroutine of its
  own and on a slice of its own, and waits for both. The result of one pass:
\<close>

record acks_pass =
  ok :: "bool outcome"
  relayedAckSequencesSrc :: "uint64 list"
  relayedAckSequencesDst :: "uint64 list"
  trace :: "event list"
  trace_src :: "event list"
  trace_dst :: "event list"

text \<open>
  A panic in one of the two goroutines is not recovered there, so the Go runtime ends the
  process: the pass does not return, which is \<open>Panic\<close> for its caller too. With both
  directions panicking the model reports the first.
\<close>

definition wait_both :: "error option outcome \<Rightarrow> error option outcome \<Rightarrow> bool outcome" where
  "wait_both srcRes dstRes =
     (case srcRes of
        Panic perr \<Rightarrow> Panic perr
      | Return srcErr \<Rightarrow>
          (case dstRes of
             Panic perr \<Rightarrow> Panic perr
           | Return DstErr \<Rightarrow>
               if srcErr \<noteq> None then Return False
               else if DstErr \<noteq> None then Return False
               else Return True))"

definition relayUnrelayedAcks ::
  "env \<Rightarrow> Chain \<Rightarrow> Chain \<Rightarrow> IdentifiedChannel \<Rightarrow> uint64 list \<Rightarrow> uint64 list \<Rightarrow> acks_pass"
where
  "relayUnrelayedAcks e src dst srcChannel cacheSrc cacheDst =
     (case QueryLatestHeights e of
        Inl err \<Rightarrow>
          \<lparr>ok = Return False, relayedAckSequencesSrc = cacheSrc,
           relayedAckSequencesDst = cacheDst,
           trace = [Call_QueryLatestHeights, Log WarnLevel ''QueryLatestHeights error''],
           trace_src = [], trace_dst = []\<rparr>
      | Inr (srch, dsth) \<Rightarrow>
          (case relayUnrelayedAcksHelper e
                  src (ChannelId srcChannel) (PortId srcChannel) srch
                  dst (CounterpartyChannelId (Counterparty srcChannel))
                    (CounterpartyPortId (Counterparty srcChannel)) dsth cacheSrc of
             (srcRes, cacheSrc', ts) \<Rightarrow>
               (case relayUnrelayedAcksHelper e
                       dst (CounterpartyChannelId (Counterparty srcChannel))
                         (CounterpartyPortId (Counterparty srcChannel)) dsth
                       src (ChannelId srcChannel) (PortId srcChannel) srch cacheDst of
                  (dstRes, cacheDst', td) \<Rightarrow>
                    \<lparr>ok = wait_both srcRes dstRes, relayedAckSequencesSrc = cacheSrc',
                     relayedAckSequencesDst = cacheDst',
                     trace = [Call_QueryLatestHeights], trace_src = ts, trace_dst = td\<rparr>)))"

text \<open>
  For comparison with the helper: the outcome of one direction as a function of what its
  two calls answer. \<open>unrelayed\<close> is the answer of \<open>unrelayedAcknowledgements\<close>, \<open>relay\<close> the
  answer of \<open>relayAcknowledgements\<close> for a list of sequences.
\<close>

definition outcome_of_calls ::
  "uint64 list \<times> error option \<times> uint64 list \<Rightarrow> (uint64 list \<Rightarrow> error option) \<Rightarrow>
   error option outcome"
where
  "outcome_of_calls unrelayed relay =
     (case unrelayed of
        (sequences, err, cand) \<Rightarrow>
          if sequences = [] then Return err
          else (case err of Some perr \<Rightarrow> Panic perr | None \<Rightarrow> Return (relay sequences)))"

section \<open>Channel worker\<close>

text \<open>
  What one turn of the worker's loop meets: the environment of its packet pass, the
  environment of its ack pass, and whether the \<open>select\<close> after the two passes takes
  \<open>ctx.Done()\<close> rather than the one-second timer.
\<close>

record tick =
  packets :: env
  acks :: env
  ctx_Done :: bool

text \<open>
  The loop of \<open>relayUnrelayedPacketsAndAcks\<close> over the turns it is given. \<open>None\<close>: the loop
  is still running after the last of them. \<open>Some (Return ())\<close>: one of the three \<open>return\<close>
  statements was reached. \<open>Some (Panic err)\<close>: the ack pass panicked.
\<close>

fun worker_loop ::
  "tick list \<Rightarrow> Chain \<Rightarrow> Chain \<Rightarrow> IdentifiedChannel \<Rightarrow> uint64 list \<Rightarrow> uint64 list \<Rightarrow>
   unit outcome option"
where
  "worker_loop [] src dst srcChannel cacheSrc cacheDst = None"
| "worker_loop (t # ts) src dst srcChannel cacheSrc cacheDst =
     (if \<not> fst (relayUnrelayedPackets (packets t) src dst srcChannel) then Some (Return ())
      else
        (let r = relayUnrelayedAcks (acks t) src dst srcChannel cacheSrc cacheDst
         in case ok r of
              Panic perr \<Rightarrow> Some (Panic perr)
            | Return b \<Rightarrow>
                if \<not> b then Some (Return ())
                else if ctx_Done t then Some (Return ())
                else worker_loop ts src dst srcChannel
                       (relayedAckSequencesSrc r) (relayedAckSequencesDst r)))"

text \<open>
  The wait group's counter and the contents of the completion queue, which the worker
  shares with the scheduler.
\<close>

record shared =
  wg :: int
  channels :: "ActiveChannel list"

datatype worker_exit = Exited shared | Crashed error

text \<open>
  The deferred function of the worker: \<open>wg.Done()\<close>, then the send of \<open>srcChannel\<close> on the
  completion queue. \<open>Done\<close> on a counter that is not positive panics in package \<open>sync\<close>.
  Whether the send has to wait for room in the queue is not modelled.
\<close>

definition worker_deferred :: "ActiveChannel \<Rightarrow> shared \<Rightarrow> worker_exit" where
  "worker_deferred srcChannel s =
     (if wg s \<le> 0 then Crashed (fmt_Errorf ''sync: negative WaitGroup counter'')
      else Exited (s\<lparr>wg := wg s - 1, channels := channels s @ [srcChannel]\<rparr>))"

text \<open>
  \<open>relayUnrelayedPacketsAndAcks\<close>: both slices of relayed ack sequences start empty. When
  the body returns, the deferred function runs. The only \<open>panic\<close> in the body of the worker
  is the one of \<open>relayUnrelayedAcksHelper\<close>, raised in a goroutine that the ack pass
  starts; neither that goroutine nor the deferred function of the worker calls \<open>recover\<close>,
  and the process ends with that panic.
\<close>

definition relayUnrelayedPacketsAndAcks ::
  "tick list \<Rightarrow> Chain \<Rightarrow> Chain \<Rightarrow> ActiveChannel \<Rightarrow> shared \<Rightarrow> worker_exit option"
where
  "relayUnrelayedPacketsAndAcks ts src dst srcChannel s =
     (case worker_loop ts src dst (channel srcChannel) [] [] of
        None \<Rightarrow> None
      | Some (Panic perr) \<Rightarrow> Some (Crashed perr)
      | Some (Return u) \<Rightarrow> Some (worker_deferred srcChannel s))"

section \<open>Legacy scheduler\<close>

text \<open>
  \<open>queryChannelsOnConnection\<close>. Its environment: the answer of \<open>QueryLatestHeight\<close>, and
  for a height the final outcome of \<open>QueryConnectionChannels\<close> under \<open>retry.Do\<close>.
\<close>

record main_env =
  QueryLatestHeight :: "error + int64"
  QueryConnectionChannels :: "int64 \<Rightarrow> error + IdentifiedChannel list"

definition queryChannelsOnConnection :: "main_env \<Rightarrow> error + IdentifiedChannel list" where
  "queryChannelsOnConnection e =
     (case QueryLatestHeight e of
        Inl err \<Rightarrow> Inl err
      | Inr srch \<Rightarrow>
          (case QueryConnectionChannels e srch of
             Inl err \<Rightarrow> Inl err
           | Inr srcChannels \<Rightarrow> Inr srcChannels))"

text \<open>
  The map \<open>srcOpenChannels\<close> from channel ids to active channels is an association list
  with one entry per key; an assignment to a key that is present replaces its value. Go
  leaves the order in which a map is iterated open; the model iterates in the order of
  insertion.
\<close>

type_synonym open_channels = "(string \<times> ActiveChannel) list"

fun filterOpenChannels_loop :: "IdentifiedChannel list \<Rightarrow> open_channels \<Rightarrow> open_channels" where
  "filterOpenChannels_loop [] openChannels = openChannels"
| "filterOpenChannels_loop (c # cs) openChannels =
     filterOpenChannels_loop cs
       (if State c = OPEN
        then AList.update (ChannelId c) \<lparr>channel = c, active = False\<rparr> openChannels
        else openChannels)"

definition filterOpenChannels :: "IdentifiedChannel list \<Rightarrow> open_channels" where
  "filterOpenChannels cs = filterOpenChannels_loop cs []"

text \<open>
  The state of the scheduler: the map of open channels, the capacity of the completion
  queue \<open>channels\<close>, the channels for which a worker goroutine was started (one
  \<open>wg.Add(1)\<close> each), and what was sent on the failure channel \<open>errCh\<close>.
\<close>

record scheduler =
  srcOpenChannels :: open_channels
  channels_cap :: nat
  started :: "IdentifiedChannel list"
  errCh :: "error list"

text \<open>
  The loop that starts a worker for every entry that is not active: the map after it and
  the channels of the workers started.
\<close>

fun spawn_loop :: "open_channels \<Rightarrow> open_channels \<times> IdentifiedChannel list" where
  "spawn_loop [] = ([], [])"
| "spawn_loop ((k, c) # m) =
     (case spawn_loop m of
        (m', gs) \<Rightarrow>
          if \<not> active c then ((k, c\<lparr>active := True\<rparr>) # m', channel c # gs)
          else ((k, c) # m', gs))"

text \<open>
  What the \<open>select\<close> of the main loop takes: the active channel of a worker that exited,
  named by its channel id, together with the final outcome of the \<open>QueryChannel\<close> retry
  that follows (an error or the state of the channel); or \<open>ctx.Done()\<close>, with the value of
  \<open>ctx.Err()\<close>.
\<close>

datatype selected = Received string "error + State" | Done error

datatype sched_run = Waiting scheduler | Stopped scheduler

text \<open>The state of the scheduler in a run, whether it waits or has stopped.\<close>

definition scheduler_of :: "sched_run \<Rightarrow> scheduler" where
  "scheduler_of r = (case r of Waiting s \<Rightarrow> s | Stopped s \<Rightarrow> s)"

text \<open>
  The main loop over what its \<open>select\<close> statements take. \<open>Waiting\<close>: the loop is blocked
  in \<open>select\<close> after the last of them. \<open>Stopped\<close>: the scheduler has returned. The workers
  run beside the scheduler and reach it only through the completion queue, so a worker's
  exit is a \<open>Received\<close> of the list; the \<open>wg.Wait()\<close> before the cancellation error is sent
  changes nothing of the state below.
\<close>

fun mainLoop :: "selected list \<Rightarrow> scheduler \<Rightarrow> sched_run" where
  "mainLoop evs s =
     (if srcOpenChannels s = []
      then Stopped (s\<lparr>errCh := errCh s @ [fmt_Errorf ''there are no open channels to relay on'']\<rparr>)
      else
        (case spawn_loop (srcOpenChannels s) of
           (m, gs) \<Rightarrow>
             (case evs of
                [] \<Rightarrow> Waiting (s\<lparr>srcOpenChannels := m, started := started s @ gs\<rparr>)
              | Done err # rest \<Rightarrow>
                  Stopped (s\<lparr>srcOpenChannels := m, started := started s @ gs,
                             errCh := errCh s @ [err]\<rparr>)
              | Received cid q # rest \<Rightarrow>
                  (case q of
                     Inl err \<Rightarrow>
                       Stopped (s\<lparr>srcOpenChannels :=
                                    AList.map_entry cid (\<lambda>c. c\<lparr>active := False\<rparr>) m,
                                  started := started s @ gs, errCh := errCh s @ [err]\<rparr>)
                   | Inr st \<Rightarrow>
                       mainLoop rest
                         (s\<lparr>srcOpenChannels :=
                              (if st \<noteq> OPEN
                               then AList.delete cid
                                      (AList.map_entry cid (\<lambda>c. c\<lparr>active := False\<rparr>) m)
                               else AList.map_entry cid (\<lambda>c. c\<lparr>active := False\<rparr>) m),
                            started := started s @ gs\<rparr>)))))"

text \<open>
  \<open>relayerMainLoop\<close>: the completion queue is made with the length of the list that
  \<open>queryChannelsOnConnection\<close> returned, before the filter rule and the OPEN test. When
  the query fails the function returns before it makes the queue.
\<close>

definition relayerMainLoop ::
  "main_env \<Rightarrow> Chain \<Rightarrow> ChannelFilter \<Rightarrow> selected list \<Rightarrow> sched_run"
where
  "relayerMainLoop e src fltr evs =
     (case queryChannelsOnConnection e of
        Inl err \<Rightarrow>
          Stopped \<lparr>srcOpenChannels = [], channels_cap = 0, started = [],
            errCh = [if Is_Canceled err then err
                     else fmt_Errorf_w
                       (''error querying all channels on chain{'' @ ChainID src @
                        ''}@connection{'' @ ConnectionID src @ ''}: '') err]\<rparr>
      | Inr srcChannels \<Rightarrow>
          mainLoop evs
            \<lparr>srcOpenChannels = filterOpenChannels (applyChannelFilterRule fltr srcChannels),
             channels_cap = length srcChannels, started = [], errCh = []\<rparr>)"

section \<open>Concrete inputs\<close>

text \<open>The inputs at which the theorems below are evaluated.\<close>

definition example_channel :: "string \<Rightarrow> State \<Rightarrow> IdentifiedChannel" where
  "example_channel cid st =
     \<lparr>State = st,
      Counterparty = \<lparr>CounterpartyPortId = ''transfer'', CounterpartyChannelId = ''channel-9''\<rparr>,
      PortId = ''transfer'', ChannelId = cid\<rparr>"

definition discovered :: "IdentifiedChannel list" where
  "discovered =
     [example_channel ''channel-0'' OPEN, example_channel ''channel-1'' OPEN,
      example_channel ''channel-3'' CLOSED, example_channel ''channel-5'' OPEN]"

definition hub :: Chain where
  "hub = \<lparr>ChainID = ''hub'', ConnectionID = ''connection-0''\<rparr>"

definition rollapp :: Chain where
  "rollapp = \<lparr>ChainID = ''rollapp'', ConnectionID = ''connection-1''\<rparr>"

definition finalized_nothing ::
  "string \<Rightarrow> QueryGetLatestFinalizedStateInfoResponse option \<times> error option"
where
  "finalized_nothing rollapId =
     (Some \<lparr>StateInfo = \<lparr>StartHeight = 0, NumBlocks = 0\<rparr>\<rparr>, None)"

definition finalized_blocks ::
  "string \<Rightarrow> QueryGetLatestFinalizedStateInfoResponse option \<times> error option"
where
  "finalized_blocks rollapId =
     (Some \<lparr>StateInfo = \<lparr>StartHeight = 100, NumBlocks = 20\<rparr>\<rparr>, None)"

definition grpc_error :: "codes \<Rightarrow> string \<Rightarrow> error" where
  "grpc_error c msg =
     \<lparr>Error = msg, Is_Canceled = False, Is_DeadlineExceeded = False, GRPCStatus = Some c\<rparr>"

definition finalized_failing ::
  "error \<Rightarrow> string \<Rightarrow> QueryGetLatestFinalizedStateInfoResponse option \<times> error option"
where
  "finalized_failing err rollapId = (None, Some err)"

definition finalized_nil ::
  "string \<Rightarrow> QueryGetLatestFinalizedStateInfoResponse option \<times> error option"
where
  "finalized_nil rollapId = (None, None)"

definition indexing_disabled :: error where
  "indexing_disabled =
     fmt_Errorf ''RPC error -32603 - Internal error: transaction indexing is disabled''"

definition application_error :: error where
  "application_error = fmt_Errorf ''failed to send messages: insufficient fees''"

definition context_canceled :: error where
  "context_canceled =
     \<lparr>Error = ''context canceled'', Is_Canceled = True, Is_DeadlineExceeded = False,
      GRPCStatus = None\<rparr>"

text \<open>
  An environment whose functions answer every call alike: the heights, the unrelayed
  packet sequences, the result of \<open>RelayPackets\<close>, the unrelayed ack sequences with the
  error of \<open>unrelayedAcknowledgements\<close> (which leaves the sequences appended to the slice
  behind its pointer), and the result of \<open>relayAcknowledgements\<close>.
\<close>

definition example_env ::
  "(error + int64 \<times> int64) \<Rightarrow> RelaySequences \<Rightarrow> error option \<Rightarrow> uint64 list \<Rightarrow>
   error option \<Rightarrow> error option \<Rightarrow> env"
where
  "example_env heights sp relayed sequences uerr acked =
     \<lparr>QueryLatestHeights = heights,
      UnrelayedSequences = (\<lambda>srch dsth c. sp),
      RelayPackets = (\<lambda>srch dsth s c. relayed),
      unrelayedAcknowledgements =
        (\<lambda>src sc sp srch dst dc dp dsth relayedAckSequences.
           (sequences, uerr, relayedAckSequences @ sequences)),
      relayAcknowledgements = (\<lambda>src sc sp srch s dst dc dp. acked)\<rparr>"

definition busy_channel :: IdentifiedChannel where
  "busy_channel = example_channel ''channel-0'' OPEN"

text \<open>
  Turns of the worker: one in which nothing is left to relay, one whose packet pass meets
  the indexing error, one whose ack pass meets an application error from
  \<open>relayAcknowledgements\<close>, and one in which \<open>unrelayedAcknowledgements\<close> returns sequences
  together with an error.
\<close>

definition idle_env :: env where
  "idle_env = example_env (Inr (10, 20)) \<lparr>Src = [], Dst = []\<rparr> None [] None None"

definition idle_tick :: tick where
  "idle_tick = \<lparr>packets = idle_env, acks = idle_env, ctx_Done = False\<rparr>"


definition indexing_env :: env where
  "indexing_env =
     example_env (Inr (10, 20)) \<lparr>Src = [1], Dst = []\<rparr> (Some indexing_disabled) [] None None"

definition indexing_tick :: tick where
  "indexing_tick = \<lparr>packets = indexing_env, acks = idle_env, ctx_Done = False\<rparr>"

definition ack_error_env :: env where
  "ack_error_env =
     example_env (Inr (10, 20)) \<lparr>Src = [], Dst = []\<rparr> None [7] None (Some application_error)"

definition ack_error_tick :: tick where
  "ack_error_tick = \<lparr>packets = idle_env, acks = ack_error_env, ctx_Done = False\<rparr>"



definition discovery_env :: main_env where
  "discovery_env =
     \<lparr>QueryLatestHeight = Inr 10, QueryConnectionChannels = (\<lambda>srch. Inr discovered)\<rparr>"

definition closed_env :: main_env where
  "closed_env =
     \<lparr>QueryLatestHeight = Inr 10,
      QueryConnectionChannels = (\<lambda>srch. Inr [example_channel ''channel-3'' CLOSED])\<rparr>"

definition relay_all :: ChannelFilter where
  "relay_all = \<lparr>Rule = [], ChannelList = []\<rparr>"

text \<open>
  An environment that answers by the heights it is asked at. With the latest heights 10
  and 20, packets are unrelayed only at the heights 9 and 19 and \<open>RelayPackets\<close> fails
  only at 10 and 20; acks are unrelayed only at the previous heights of the direction,
  and \<open>relayAcknowledgements\<close> fails only at the latest height of the direction's source.
\<close>

definition height_env :: env where
  "height_env =
     \<lparr>QueryLatestHeights = Inr (10, 20),
      UnrelayedSequences =
        (\<lambda>srch dsth c. if srch = 9 \<and> dsth = 19 then \<lparr>Src = [1], Dst = []\<rparr>
           else \<lparr>Src = [], Dst = []\<rparr>),
      RelayPackets =
        (\<lambda>srch dsth s c. if srch = 10 \<and> dsth = 20 then Some indexing_disabled else None),
      unrelayedAcknowledgements =
        (\<lambda>src sc sp srch dst dc dp dsth relayedAckSequences.
           if (src = hub \<and> srch = 9 \<and> dsth = 19) \<or> (src = rollapp \<and> srch = 19 \<and> dsth = 9)
           then ([7], None, relayedAckSequences @ [7])
           else ([], None, relayedAckSequences)),
      relayAcknowledgements =
        (\<lambda>src sc sp srch s dst dc dp.
           if (src = hub \<and> srch = 10) \<or> (src = rollapp \<and> srch = 20)
           then Some application_error else None)\<rparr>"

section \<open>Properties of the channel filter\<close>

lemma allow_loop_filter:
  "allow_loop f cs acc = acc @ filter (\<lambda>c. ChannelId c \<in> set (ChannelList f)) cs"
  by (induction cs arbitrary: acc) (simp_all add: InChannelList_def)

lemma deny_loop_filter:
  "deny_loop f cs acc = acc @ filter (\<lambda>c. ChannelId c \<notin> set (ChannelList f)) cs"
  by (induction cs arbitrary: acc) (simp_all add: InChannelList_def)

lemma allowList_neq_denyList: "allowList \<noteq> denyList"
  by (simp add: allowList_def denyList_def)

text \<open>
  C6. \<open>applyChannelFilterRule\<close> keeps, in the order of the input, exactly the channels
  whose \<open>ChannelId\<close> is in the filter's list under the allow rule, exactly those whose
  \<open>ChannelId\<close> is not in the list under the deny rule, and the whole input under any
  other rule (the rule \<open>none\<close> of the spec). With an empty list, allow keeps nothing and
  deny keeps everything. The function reads nothing but its arguments.
\<close>

theorem applyChannelFilterRule_spec:
  "(Rule F = allowList \<longrightarrow>
      applyChannelFilterRule F C = filter (\<lambda>c. ChannelId c \<in> set (ChannelList F)) C) \<and>
   (Rule F = denyList \<longrightarrow>
      applyChannelFilterRule F C = filter (\<lambda>c. ChannelId c \<notin> set (ChannelList F)) C) \<and>
   (Rule F \<noteq> allowList \<and> Rule F \<noteq> denyList \<longrightarrow> applyChannelFilterRule F C = C) \<and>
   (ChannelList F = [] \<longrightarrow>
      (Rule F = allowList \<longrightarrow> applyChannelFilterRule F C = []) \<and>
      (Rule F = denyList \<longrightarrow> applyChannelFilterRule F C = C))"
  by (simp add: applyChannelFilterRule_def allow_loop_filter deny_loop_filter
      allowList_neq_denyList allowList_neq_denyList [symmetric])

theorem applyChannelFilterRule_spec_witness:
  "applyChannelFilterRule \<lparr>Rule = allowList, ChannelList = [''channel-0'', ''channel-3'']\<rparr>
     discovered =
     [example_channel ''channel-0'' OPEN, example_channel ''channel-3'' CLOSED] \<and>
   applyChannelFilterRule \<lparr>Rule = denyList, ChannelList = [''channel-0'', ''channel-3'']\<rparr>
     discovered =
     [example_channel ''channel-1'' OPEN, example_channel ''channel-5'' OPEN] \<and>
   applyChannelFilterRule \<lparr>Rule = ''none'', ChannelList = [''channel-0'']\<rparr> discovered =
     discovered \<and>
   applyChannelFilterRule \<lparr>Rule = allowList, ChannelList = []\<rparr> discovered = [] \<and>
   applyChannelFilterRule \<lparr>Rule = denyList, ChannelList = []\<rparr> discovered = discovered"
  using
    applyChannelFilterRule_spec
      [of "\<lparr>Rule = allowList, ChannelList = [''channel-0'', ''channel-3'']\<rparr>" discovered]
    applyChannelFilterRule_spec
      [of "\<lparr>Rule = denyList, ChannelList = [''channel-0'', ''channel-3'']\<rparr>" discovered]
    applyChannelFilterRule_spec
      [of "\<lparr>Rule = ''none'', ChannelList = [''channel-0'']\<rparr>" discovered]
    applyChannelFilterRule_spec [of "\<lparr>Rule = allowList, ChannelList = []\<rparr>" discovered]
    applyChannelFilterRule_spec [of "\<lparr>Rule = denyList, ChannelList = []\<rparr>" discovered]
  by (simp add: discovered_def example_channel_def allowList_def denyList_def)

section \<open>Properties of the settlement client\<close>

text \<open>
  C10, as stated, does not hold: \<open>QueryLatestFinalizedHeight\<close> also returns \<open>(-1, nil)\<close>
  when the query succeeds with a state info whose \<open>StartHeight\<close> and \<open>NumBlocks\<close> are both
  zero.
\<close>

theorem QueryLatestFinalizedHeight_sentinel_counterexample:
  "snd (finalized_nothing ''rollapp_1'') = None \<and>
   QueryLatestFinalizedHeight finalized_nothing ''rollapp_1'' = (- 1, None)"
  by (simp add: QueryLatestFinalizedHeight_def finalized_nothing_def)

text \<open>
  C10, amended. \<open>QueryLatestFinalizedHeight\<close> returns \<open>(-1, nil)\<close> exactly when the query
  fails with gRPC status code NotFound or succeeds with
  \<open>StartHeight + NumBlocks = 0\<close> in \<open>uint64\<close>; for any other query error it returns -1 with
  that error, for a nil response without error -1 with an error of its own, and on success
  \<open>StartHeight + NumBlocks - 1\<close> (computed in \<open>uint64\<close>, read as \<open>int64\<close>) with a nil
  error.
\<close>

theorem QueryLatestFinalizedHeight_spec:
  "(QueryLatestFinalizedHeight q r = (- 1, None) \<longleftrightarrow>
      (\<exists>res err. q r = (res, Some err) \<and> GRPCStatus err = Some NotFound) \<or>
      (\<exists>res. q r = (Some res, None) \<and>
         StartHeight (StateInfo res) + NumBlocks (StateInfo res) = 0)) \<and>
   (\<forall>res err. q r = (res, Some err) \<and> GRPCStatus err \<noteq> Some NotFound \<longrightarrow>
      QueryLatestFinalizedHeight q r = (- 1, Some err)) \<and>
   (q r = (None, None) \<longrightarrow>
      QueryLatestFinalizedHeight q r =
        (- 1, Some (fmt_Errorf ''can't get latest-finalized-state info''))) \<and>
   (\<forall>res. q r = (Some res, None) \<longrightarrow>
      QueryLatestFinalizedHeight q r =
        (StartHeight (StateInfo res) + NumBlocks (StateInfo res) - 1, None))"
proof -
  have word: "x + y - 1 = - 1 \<longleftrightarrow> x + y = 0" for x y :: uint64
    by (simp add: diff_eq_eq)
  show ?thesis
    by (cases "q r")
      (auto simp: QueryLatestFinalizedHeight_def status_FromError_def word
        split: option.splits)
qed

theorem QueryLatestFinalizedHeight_spec_witness:
  "QueryLatestFinalizedHeight (finalized_failing (grpc_error NotFound ''not found''))
     ''rollapp_1'' = (- 1, None) \<and>
   QueryLatestFinalizedHeight (finalized_failing (grpc_error Unavailable ''unavailable''))
     ''rollapp_1'' = (- 1, Some (grpc_error Unavailable ''unavailable'')) \<and>
   QueryLatestFinalizedHeight finalized_nil ''rollapp_1'' =
     (- 1, Some (fmt_Errorf ''can't get latest-finalized-state info'')) \<and>
   QueryLatestFinalizedHeight finalized_blocks ''rollapp_1'' = (119, None)"
  using
    QueryLatestFinalizedHeight_spec
      [of "finalized_failing (grpc_error NotFound ''not found'')" "''rollapp_1''"]
    QueryLatestFinalizedHeight_spec
      [of "finalized_failing (grpc_error Unavailable ''unavailable'')" "''rollapp_1''"]
    QueryLatestFinalizedHeight_spec [of finalized_nil "''rollapp_1''"]
    QueryLatestFinalizedHeight_spec [of finalized_blocks "''rollapp_1''"]
  by (simp add: finalized_failing_def grpc_error_def finalized_nil_def finalized_blocks_def)

section \<open>Properties of the ack helper\<close>

lemma update_relayed_fst: "fst (update_relayed err old cand t) = Return err"
  by (cases err) (simp_all add: update_relayed_def)

lemma update_relayed_cache:
  "fst (snd (update_relayed err old cand t)) = (if err = None then cand else old)"
  by (cases err) (simp_all add: update_relayed_def)

text \<open>
  C4. \<open>relayUnrelayedAcksHelper\<close> panics if and only if \<open>unrelayedAcknowledgements\<close> returns
  a non-empty sequence list together with a non-nil error; in every other case it
  returns. The calls it makes are functions of the environment, which return.
\<close>

theorem relayUnrelayedAcksHelper_panics_iff:
  "((\<exists>perr. fst (relayUnrelayedAcksHelper e src sc sp srch dst dc dp dsth cache) = Panic perr)
      \<longleftrightarrow>
    fst (unrelayedAcknowledgements e src sc sp (srch - 1) dst dc dp (dsth - 1) cache) \<noteq> [] \<and>
    fst (snd (unrelayedAcknowledgements e src sc sp (srch - 1) dst dc dp (dsth - 1) cache))
      \<noteq> None) \<and>
   ((\<exists>r. fst (relayUnrelayedAcksHelper e src sc sp srch dst dc dp dsth cache) = Return r)
      \<longleftrightarrow>
    fst (unrelayedAcknowledgements e src sc sp (srch - 1) dst dc dp (dsth - 1) cache) = [] \<or>
    fst (snd (unrelayedAcknowledgements e src sc sp (srch - 1) dst dc dp (dsth - 1) cache))
      = None)"
proof (cases "unrelayedAcknowledgements e src sc sp (srch - 1) dst dc dp (dsth - 1) cache")
  case (fields sequences err cand)
  show ?thesis
  proof (cases "sequences = []")
    case True
    with fields show ?thesis
      by (simp add: relayUnrelayedAcksHelper_def update_relayed_fst)
  next
    case False
    with fields show ?thesis
      by (cases err)
        (auto simp: relayUnrelayedAcksHelper_def update_relayed_fst Let_def split: option.splits)
  qed
qed

theorem relayUnrelayedAcksHelper_panics_iff_witness:
  "fst (relayUnrelayedAcksHelper
          (example_env (Inr (10, 20)) \<lparr>Src = [], Dst = []\<rparr> None [7] (Some application_error) None)
          hub ''channel-0'' ''transfer'' 10 rollapp ''channel-9'' ''transfer'' 20 [])
     = Panic application_error \<and>
   fst (relayUnrelayedAcksHelper
          (example_env (Inr (10, 20)) \<lparr>Src = [], Dst = []\<rparr> None [] (Some application_error) None)
          hub ''channel-0'' ''transfer'' 10 rollapp ''channel-9'' ''transfer'' 20 [])
     = Return (Some application_error) \<and>
   fst (relayUnrelayedAcksHelper
          (example_env (Inr (10, 20)) \<lparr>Src = [], Dst = []\<rparr> None [7] None None)
          hub ''channel-0'' ''transfer'' 10 rollapp ''channel-9'' ''transfer'' 20 [])
     = Return None"
  using
    relayUnrelayedAcksHelper_panics_iff
      [of "example_env (Inr (10, 20)) \<lparr>Src = [], Dst = []\<rparr> None [7] (Some application_error) None"
        hub "''channel-0''" "''transfer''" 10 rollapp "''channel-9''" "''transfer''" 20 "[]"]
  by (simp add: relayUnrelayedAcksHelper_def example_env_def update_relayed_def)

text \<open>
  C9. When \<open>relayUnrelayedAcksHelper\<close> returns a non-nil error, the slice behind the
  caller's pointer \<open>relayedAckSequences\<close> has the value it had before the call. The helper
  hands a copy of the slice value to \<open>unrelayedAcknowledgements\<close> and assigns the result
  back through the caller's pointer only when it returns nil.
\<close>

theorem relayUnrelayedAcksHelper_keeps_cache_on_error:
  "(\<forall>err. fst (relayUnrelayedAcksHelper e src sc sp srch dst dc dp dsth cache)
             = Return (Some err) \<longrightarrow>
      fst (snd (relayUnrelayedAcksHelper e src sc sp srch dst dc dp dsth cache)) = cache) \<and>
   (fst (relayUnrelayedAcksHelper e src sc sp srch dst dc dp dsth cache) = Return None \<longrightarrow>
      fst (snd (relayUnrelayedAcksHelper e src sc sp srch dst dc dp dsth cache)) =
      snd (snd (unrelayedAcknowledgements e src sc sp (srch - 1) dst dc dp (dsth - 1) cache)))"
proof (cases "unrelayedAcknowledgements e src sc sp (srch - 1) dst dc dp (dsth - 1) cache")
  case (fields sequences err cand)
  show ?thesis
  proof (cases "sequences = []")
    case True
    with fields show ?thesis
      by (simp add: relayUnrelayedAcksHelper_def update_relayed_fst update_relayed_cache)
  next
    case False
    with fields show ?thesis
      by (cases err)
        (auto simp: relayUnrelayedAcksHelper_def update_relayed_fst update_relayed_cache Let_def
          split: option.splits)
  qed
qed

theorem relayUnrelayedAcksHelper_keeps_cache_on_error_witness:
  "relayUnrelayedAcksHelper
     (example_env (Inr (10, 20)) \<lparr>Src = [], Dst = []\<rparr> None [7] None (Some application_error))
     hub ''channel-0'' ''transfer'' 10 rollapp ''channel-9'' ''transfer'' 20 [5, 6]
     = (Return (Some application_error), [5, 6],
        [Call_unrelayedAcknowledgements hub ''channel-0'' ''transfer'' 9
           rollapp ''channel-9'' ''transfer'' 19,
         Call_relayAcknowledgements hub ''channel-0'' ''transfer'' 10 [7]
           rollapp ''channel-9'' ''transfer'',
         Log WarnLevel ''Relay acknowledgements error'',
         Log WarnLevel ''unrelayedAcknowledgements failed'']) \<and>
   fst (snd (relayUnrelayedAcksHelper
     (example_env (Inr (10, 20)) \<lparr>Src = [], Dst = []\<rparr> None [7] None None)
     hub ''channel-0'' ''transfer'' 10 rollapp ''channel-9'' ''transfer'' 20 [5, 6]))
     = [5, 6, 7]"
  using
    relayUnrelayedAcksHelper_keeps_cache_on_error
      [of "example_env (Inr (10, 20)) \<lparr>Src = [], Dst = []\<rparr> None [7] None (Some application_error)"
        hub "''channel-0''" "''transfer''" 10 rollapp "''channel-9''" "''transfer''" 20 "[5, 6]"]
    relayUnrelayedAcksHelper_keeps_cache_on_error
      [of "example_env (Inr (10, 20)) \<lparr>Src = [], Dst = []\<rparr> None [7] None None"
        hub "''channel-0''" "''transfer''" 10 rollapp "''channel-9''" "''transfer''" 20 "[5, 6]"]
  by (simp add: relayUnrelayedAcksHelper_def example_env_def update_relayed_def
      application_error_def fmt_Errorf_def)

section \<open>Properties of the packet pass\<close>

lemma relayUnrelayedPackets_failed:
  assumes "QueryLatestHeights e = Inr (srch, dsth)"
    and "\<not> Empty (UnrelayedSequences e (srch - 1) (dsth - 1) c)"
    and "RelayPackets e srch dsth (UnrelayedSequences e (srch - 1) (dsth - 1) c) c = Some err"
  shows "fst (relayUnrelayedPackets e src dst c) = fst (RelayPackets_failed err)"
    and "snd (relayUnrelayedPackets e src dst c) \<noteq> []"
    and "snd (RelayPackets_failed err) \<noteq> [] \<Longrightarrow>
         last (snd (relayUnrelayedPackets e src dst c)) = last (snd (RelayPackets_failed err))"
  using assms by (auto simp: relayUnrelayedPackets_def Let_def split: prod.splits)

lemma strings_Contains_sublist: "strings_Contains s substr = sublist substr s"
  by (induction s) (simp_all add: sublist_Cons_right)

lemma indexing_disabled_Contains:
  "strings_Contains (Error indexing_disabled)
     ''Internal error: transaction indexing is disabled''"
  by (simp add: indexing_disabled_def fmt_Errorf_def)

text \<open>
  C1, as stated, does not hold: a packet pass whose \<open>RelayPackets\<close> error contains
  \<open>transaction indexing is disabled\<close> (here after \<open>Internal error:\<close>, as the node reports
  it) makes \<open>relayUnrelayedPackets\<close> return false, and the worker returns in that turn
  instead of going on to the next.
\<close>

theorem relayUnrelayedPackets_indexing_counterexample:
  "RelayPackets indexing_env 10 20 \<lparr>Src = [1], Dst = []\<rparr> busy_channel = Some indexing_disabled \<and>
   strings_Contains (Error indexing_disabled) ''transaction indexing is disabled'' \<and>
   \<not> fst (relayUnrelayedPackets indexing_env hub rollapp busy_channel) \<and>
   worker_loop [indexing_tick, idle_tick] hub rollapp busy_channel [] [] = Some (Return ())"
  by (simp add: indexing_env_def indexing_tick_def example_env_def indexing_disabled_def
      fmt_Errorf_def relayUnrelayedPackets_def RelayPackets_failed_def Empty_def)

text \<open>
  C1, amended. For every packet pass in which \<open>RelayPackets\<close> fails with an error whose
  message contains \<open>Internal error: transaction indexing is disabled\<close>,
  \<open>relayUnrelayedPackets\<close> returns false and the channel worker leaves its loop in that
  turn, so that its deferred function runs; unless the error is a context cancellation or
  deadline, the last line logged is the hint that the remote server needs to enable
  transaction indexing.
\<close>

theorem relayUnrelayedPackets_indexing_disabled:
  assumes "QueryLatestHeights (packets t) = Inr (srch, dsth)"
    and "\<not> Empty (UnrelayedSequences (packets t) (srch - 1) (dsth - 1) (channel c))"
    and "RelayPackets (packets t) srch dsth
           (UnrelayedSequences (packets t) (srch - 1) (dsth - 1) (channel c)) (channel c)
         = Some err"
    and "strings_Contains (Error err) ''Internal error: transaction indexing is disabled''"
  shows "\<not> fst (relayUnrelayedPackets (packets t) src dst (channel c)) \<and>
         (\<not> Is_DeadlineExceeded err \<and> \<not> Is_Canceled err \<longrightarrow>
            last (snd (relayUnrelayedPackets (packets t) src dst (channel c))) =
            Log WarnLevel ''Remote server needs to enable transaction indexing'') \<and>
         worker_loop (t # ts) src dst (channel c) cacheSrc cacheDst = Some (Return ()) \<and>
         relayUnrelayedPacketsAndAcks (t # ts) src dst c s = Some (worker_deferred c s)"
proof -
  have failed: "\<not> fst (RelayPackets_failed err)"
    using assms(4) by (simp add: RelayPackets_failed_def)
  have hint: "snd (RelayPackets_failed err) =
      [Log WarnLevel ''Remote server needs to enable transaction indexing'']"
    if "\<not> Is_DeadlineExceeded err" "\<not> Is_Canceled err"
    using assms(4) that by (simp add: RelayPackets_failed_def)
  have no: "\<not> fst (relayUnrelayedPackets (packets t) src dst (channel c))"
    using relayUnrelayedPackets_failed(1) [OF assms(1-3)] failed by simp
  have loop: "worker_loop (t # ts) src dst (channel c) x y = Some (Return ())" for x y
    using no by simp
  have "last (snd (relayUnrelayedPackets (packets t) src dst (channel c))) =
      Log WarnLevel ''Remote server needs to enable transaction indexing''"
    if "\<not> Is_DeadlineExceeded err" "\<not> Is_Canceled err"
    using relayUnrelayedPackets_failed(3) [OF assms(1-3)] hint [OF that] by simp
  with no loop show ?thesis
    by (simp add: relayUnrelayedPacketsAndAcks_def)
qed

theorem relayUnrelayedPackets_indexing_disabled_witness:
  "\<not> fst (relayUnrelayedPackets indexing_env hub rollapp busy_channel) \<and>
   last (snd (relayUnrelayedPackets indexing_env hub rollapp busy_channel)) =
     Log WarnLevel ''Remote server needs to enable transaction indexing'' \<and>
   relayUnrelayedPacketsAndAcks [indexing_tick, idle_tick] hub rollapp
     \<lparr>channel = busy_channel, active = True\<rparr> \<lparr>wg = 1, channels = []\<rparr> =
     Some (Exited \<lparr>wg = 0, channels = [\<lparr>channel = busy_channel, active = True\<rparr>]\<rparr>)"
proof -
  have heights: "QueryLatestHeights (packets indexing_tick) = Inr (10, 20)"
    by (simp add: indexing_tick_def indexing_env_def example_env_def)
  have queue: "\<not> Empty (UnrelayedSequences (packets indexing_tick) (10 - 1) (20 - 1)
      (channel \<lparr>channel = busy_channel, active = True\<rparr>))"
    by (simp add: indexing_tick_def indexing_env_def example_env_def Empty_def)
  have fails: "RelayPackets (packets indexing_tick) 10 20
      (UnrelayedSequences (packets indexing_tick) (10 - 1) (20 - 1)
        (channel \<lparr>channel = busy_channel, active = True\<rparr>))
      (channel \<lparr>channel = busy_channel, active = True\<rparr>) = Some indexing_disabled"
    by (simp add: indexing_tick_def indexing_env_def example_env_def)
  have plain: "\<not> Is_DeadlineExceeded indexing_disabled \<and> \<not> Is_Canceled indexing_disabled"
    by (simp add: indexing_disabled_def fmt_Errorf_def)
  have same: "packets indexing_tick = indexing_env"
    by (simp add: indexing_tick_def)
  show ?thesis
    using relayUnrelayedPackets_indexing_disabled
      [OF heights queue fails indexing_disabled_Contains, of hub rollapp "[idle_tick]" "[]" "[]"
        "\<lparr>wg = 1, channels = []\<rparr>"]
      plain same
    by (simp add: worker_deferred_def)
qed

section \<open>Properties of the ack pass\<close>

lemma relayUnrelayedAcksHelper_relay_error:
  assumes "unrelayedAcknowledgements e src sc sp (srch - 1) dst dc dp (dsth - 1) cache =
      (sequences, None, cand)"
    and "sequences \<noteq> []"
    and "relayAcknowledgements e src sc sp srch sequences dst dc dp = Some err"
  shows "fst (relayUnrelayedAcksHelper e src sc sp srch dst dc dp dsth cache) = Return (Some err)"
  using assms by (simp add: relayUnrelayedAcksHelper_def Let_def update_relayed_fst)

lemma relayUnrelayedAcksHelper_relay_error_log:
  assumes "unrelayedAcknowledgements e src sc sp (srch - 1) dst dc dp (dsth - 1) cache =
      (sequences, None, cand)"
    and "sequences \<noteq> []"
    and "relayAcknowledgements e src sc sp srch sequences dst dc dp = Some err"
    and "\<not> Is_DeadlineExceeded err" and "\<not> Is_Canceled err"
  shows "Log WarnLevel ''Relay acknowledgements error''
     \<in> set (snd (snd (relayUnrelayedAcksHelper e src sc sp srch dst dc dp dsth cache)))"
  using assms by (simp add: relayUnrelayedAcksHelper_def Let_def update_relayed_def)

lemma relayUnrelayedAcks_ok:
  assumes "QueryLatestHeights e = Inr (srch, dsth)"
  shows "ok (relayUnrelayedAcks e src dst c cacheSrc cacheDst) =
     wait_both
       (fst (relayUnrelayedAcksHelper e src (ChannelId c) (PortId c) srch
          dst (CounterpartyChannelId (Counterparty c)) (CounterpartyPortId (Counterparty c))
          dsth cacheSrc))
       (fst (relayUnrelayedAcksHelper e
          dst (CounterpartyChannelId (Counterparty c)) (CounterpartyPortId (Counterparty c))
          dsth src (ChannelId c) (PortId c) srch cacheDst))"
  using assms by (simp add: relayUnrelayedAcks_def split: prod.splits)

lemma relayUnrelayedAcks_traces:
  assumes "QueryLatestHeights e = Inr (srch, dsth)"
  shows "trace_src (relayUnrelayedAcks e src dst c cacheSrc cacheDst) =
     snd (snd (relayUnrelayedAcksHelper e src (ChannelId c) (PortId c) srch
          dst (CounterpartyChannelId (Counterparty c)) (CounterpartyPortId (Counterparty c))
          dsth cacheSrc))"
    and "trace_dst (relayUnrelayedAcks e src dst c cacheSrc cacheDst) =
     snd (snd (relayUnrelayedAcksHelper e
          dst (CounterpartyChannelId (Counterparty c)) (CounterpartyPortId (Counterparty c))
          dsth src (ChannelId c) (PortId c) srch cacheDst))"
    and "trace (relayUnrelayedAcks e src dst c cacheSrc cacheDst) = [Call_QueryLatestHeights]"
  using assms by (simp_all add: relayUnrelayedAcks_def split: prod.splits)

lemma wait_both_error:
  "wait_both (Return (Some err)) r \<noteq> Return True"
  "wait_both r (Return (Some err)) \<noteq> Return True"
  by (simp_all add: wait_both_def split: outcome.splits)

lemma worker_loop_acks_not_ok:
  assumes "ok (relayUnrelayedAcks (acks t) src dst c cacheSrc cacheDst) \<noteq> Return True"
  shows "worker_loop (t # ts) src dst c cacheSrc cacheDst \<noteq> None"
  using assms by (auto simp: Let_def split: outcome.splits)

text \<open>
  C2, as stated, does not hold: an ack pass whose \<open>relayAcknowledgements\<close> fails with
  an application-level error makes \<open>relayUnrelayedAcks\<close> return false, and the worker
  returns in that turn.
\<close>

theorem relayUnrelayedAcks_error_counterexample:
  "relayAcknowledgements ack_error_env hub ''channel-0'' ''transfer'' 10 [7]
     rollapp ''channel-9'' ''transfer'' = Some application_error \<and>
   \<not> Is_DeadlineExceeded application_error \<and> \<not> Is_Canceled application_error \<and>
   ok (relayUnrelayedAcks ack_error_env hub rollapp busy_channel [] []) = Return False \<and>
   worker_loop [ack_error_tick, idle_tick] hub rollapp busy_channel [] [] = Some (Return ())"
  by (simp add: ack_error_env_def ack_error_tick_def idle_tick_def idle_env_def example_env_def
      application_error_def fmt_Errorf_def relayUnrelayedPackets_def Empty_def
      relayUnrelayedAcks_def relayUnrelayedAcksHelper_def update_relayed_def wait_both_def
      busy_channel_def example_channel_def)

text \<open>
  C2, amended. For every ack pass in which \<open>relayAcknowledgements\<close> fails with an
  application-level error in one of the two directions, the helper logs the error and
  \<open>relayUnrelayedAcks\<close> does not return true: it returns false, unless the helper of the
  other direction panics. The channel worker does not go on to its next turn.
\<close>

theorem relayUnrelayedAcks_application_error:
  assumes "QueryLatestHeights (acks t) = Inr (srch, dsth)"
    and "(unrelayedAcknowledgements (acks t) src (ChannelId c) (PortId c) (srch - 1)
            dst (CounterpartyChannelId (Counterparty c)) (CounterpartyPortId (Counterparty c))
            (dsth - 1) cacheSrc = (sequences, None, cand) \<and>
          relayAcknowledgements (acks t) src (ChannelId c) (PortId c) srch sequences
            dst (CounterpartyChannelId (Counterparty c)) (CounterpartyPortId (Counterparty c))
            = Some err) \<or>
         (unrelayedAcknowledgements (acks t)
            dst (CounterpartyChannelId (Counterparty c)) (CounterpartyPortId (Counterparty c))
            (dsth - 1) src (ChannelId c) (PortId c) (srch - 1) cacheDst
            = (sequences, None, cand) \<and>
          relayAcknowledgements (acks t)
            dst (CounterpartyChannelId (Counterparty c)) (CounterpartyPortId (Counterparty c))
            dsth sequences src (ChannelId c) (PortId c) = Some err)"
    and "sequences \<noteq> []"
    and "\<not> Is_DeadlineExceeded err" and "\<not> Is_Canceled err"
  shows "(ok (relayUnrelayedAcks (acks t) src dst c cacheSrc cacheDst) = Return False \<or>
          (\<exists>perr. ok (relayUnrelayedAcks (acks t) src dst c cacheSrc cacheDst) = Panic perr)) \<and>
         Log WarnLevel ''Relay acknowledgements error''
           \<in> set (trace_src (relayUnrelayedAcks (acks t) src dst c cacheSrc cacheDst)) \<union>
             set (trace_dst (relayUnrelayedAcks (acks t) src dst c cacheSrc cacheDst)) \<and>
         worker_loop (t # ts) src dst c cacheSrc cacheDst \<noteq> None"
proof -
  let ?r = "relayUnrelayedAcks (acks t) src dst c cacheSrc cacheDst"
  have not_true: "ok ?r \<noteq> Return True"
    using assms(2)
  proof
    assume "unrelayedAcknowledgements (acks t) src (ChannelId c) (PortId c) (srch - 1)
            dst (CounterpartyChannelId (Counterparty c)) (CounterpartyPortId (Counterparty c))
            (dsth - 1) cacheSrc = (sequences, None, cand) \<and>
          relayAcknowledgements (acks t) src (ChannelId c) (PortId c) srch sequences
            dst (CounterpartyChannelId (Counterparty c)) (CounterpartyPortId (Counterparty c))
            = Some err"
    then show ?thesis
      using relayUnrelayedAcksHelper_relay_error [of "acks t" src "ChannelId c" "PortId c" srch
          dst "CounterpartyChannelId (Counterparty c)" "CounterpartyPortId (Counterparty c)"
          dsth cacheSrc sequences cand err]
        assms(3) relayUnrelayedAcks_ok [OF assms(1)] wait_both_error(1)
      by simp
  next
    assume "unrelayedAcknowledgements (acks t)
            dst (CounterpartyChannelId (Counterparty c)) (CounterpartyPortId (Counterparty c))
            (dsth - 1) src (ChannelId c) (PortId c) (srch - 1) cacheDst
            = (sequences, None, cand) \<and>
          relayAcknowledgements (acks t)
            dst (CounterpartyChannelId (Counterparty c)) (CounterpartyPortId (Counterparty c))
            dsth sequences src (ChannelId c) (PortId c) = Some err"
    then show ?thesis
      using relayUnrelayedAcksHelper_relay_error [of "acks t"
          dst "CounterpartyChannelId (Counterparty c)" "CounterpartyPortId (Counterparty c)"
          dsth src "ChannelId c" "PortId c" srch cacheDst sequences cand err]
        assms(3) relayUnrelayedAcks_ok [OF assms(1)] wait_both_error(2)
      by simp
  qed
  have shape: "ok ?r = Return False \<or> (\<exists>perr. ok ?r = Panic perr)"
    using not_true by (cases "ok ?r") auto
  have logged: "Log WarnLevel ''Relay acknowledgements error''
      \<in> set (trace_src ?r) \<union> set (trace_dst ?r)"
    using assms(2)
  proof
    assume "unrelayedAcknowledgements (acks t) src (ChannelId c) (PortId c) (srch - 1)
            dst (CounterpartyChannelId (Counterparty c)) (CounterpartyPortId (Counterparty c))
            (dsth - 1) cacheSrc = (sequences, None, cand) \<and>
          relayAcknowledgements (acks t) src (ChannelId c) (PortId c) srch sequences
            dst (CounterpartyChannelId (Counterparty c)) (CounterpartyPortId (Counterparty c))
            = Some err"
    then show ?thesis
      using relayUnrelayedAcksHelper_relay_error_log [of "acks t" src "ChannelId c" "PortId c"
          srch dst "CounterpartyChannelId (Counterparty c)"
          "CounterpartyPortId (Counterparty c)" dsth cacheSrc sequences cand err]
        assms(3,4,5) relayUnrelayedAcks_traces [OF assms(1)]
      by simp
  next
    assume "unrelayedAcknowledgements (acks t)
            dst (CounterpartyChannelId (Counterparty c)) (CounterpartyPortId (Counterparty c))
            (dsth - 1) src (ChannelId c) (PortId c) (srch - 1) cacheDst
            = (sequences, None, cand) \<and>
          relayAcknowledgements (acks t)
            dst (CounterpartyChannelId (Counterparty c)) (CounterpartyPortId (Counterparty c))
            dsth sequences src (ChannelId c) (PortId c) = Some err"
    then show ?thesis
      using relayUnrelayedAcksHelper_relay_error_log [of "acks t"
          dst "CounterpartyChannelId (Counterparty c)" "CounterpartyPortId (Counterparty c)"
          dsth src "ChannelId c" "PortId c" srch cacheDst sequences cand err]
        assms(3,4,5) relayUnrelayedAcks_traces [OF assms(1)]
      by simp
  qed
  from shape logged worker_loop_acks_not_ok [OF not_true] show ?thesis
    by simp
qed

theorem relayUnrelayedAcks_application_error_witness:
  "ok (relayUnrelayedAcks ack_error_env hub rollapp busy_channel [] []) = Return False \<and>
   Log WarnLevel ''Relay acknowledgements error''
     \<in> set (trace_src (relayUnrelayedAcks ack_error_env hub rollapp busy_channel [] [])) \<and>
   worker_loop [ack_error_tick, idle_tick] hub rollapp busy_channel [] [] = Some (Return ())"
proof -
  have same: "acks ack_error_tick = ack_error_env"
    by (simp add: ack_error_tick_def)
  have heights: "QueryLatestHeights (acks ack_error_tick) = Inr (10, 20)"
    by (simp add: same ack_error_env_def example_env_def)
  have fails:
    "(unrelayedAcknowledgements (acks ack_error_tick) hub (ChannelId busy_channel)
        (PortId busy_channel) (10 - 1) rollapp
        (CounterpartyChannelId (Counterparty busy_channel))
        (CounterpartyPortId (Counterparty busy_channel)) (20 - 1) [] = ([7], None, [7]) \<and>
      relayAcknowledgements (acks ack_error_tick) hub (ChannelId busy_channel)
        (PortId busy_channel) 10 [7] rollapp
        (CounterpartyChannelId (Counterparty busy_channel))
        (CounterpartyPortId (Counterparty busy_channel)) = Some application_error) \<or>
     (unrelayedAcknowledgements (acks ack_error_tick) rollapp
        (CounterpartyChannelId (Counterparty busy_channel))
        (CounterpartyPortId (Counterparty busy_channel)) (20 - 1) hub
        (ChannelId busy_channel) (PortId busy_channel) (10 - 1) [] = ([7], None, [7]) \<and>
      relayAcknowledgements (acks ack_error_tick) rollapp
        (CounterpartyChannelId (Counterparty busy_channel))
        (CounterpartyPortId (Counterparty busy_channel)) 20 [7] hub
        (ChannelId busy_channel) (PortId busy_channel) = Some application_error)"
    by (simp add: same ack_error_env_def example_env_def)
  have plain: "\<not> Is_DeadlineExceeded application_error" "\<not> Is_Canceled application_error"
    by (simp_all add: application_error_def fmt_Errorf_def)
  have queue: "[7 :: uint64] \<noteq> []"
    by simp
  show ?thesis
    using relayUnrelayedAcks_application_error
      [OF heights fails queue plain, of "[idle_tick]"] same
    by (simp add: ack_error_env_def ack_error_tick_def idle_tick_def idle_env_def
      example_env_def application_error_def fmt_Errorf_def relayUnrelayedPackets_def Empty_def
      relayUnrelayedAcks_def relayUnrelayedAcksHelper_def update_relayed_def wait_both_def)
qed

lemma relayUnrelayedAcksHelper_outcome:
  "fst (relayUnrelayedAcksHelper e s sc sp h d dc dp h' cache) =
   outcome_of_calls (unrelayedAcknowledgements e s sc sp (h - 1) d dc dp (h' - 1) cache)
     (\<lambda>sequences. relayAcknowledgements e s sc sp h sequences d dc dp)"
proof (cases "unrelayedAcknowledgements e s sc sp (h - 1) d dc dp (h' - 1) cache")
  case (fields sequences err cand)
  show ?thesis
  proof (cases "sequences = []")
    case True
    with fields show ?thesis
      by (simp add: relayUnrelayedAcksHelper_def outcome_of_calls_def update_relayed_fst)
  next
    case False
    with fields show ?thesis
      by (cases err)
        (auto simp: relayUnrelayedAcksHelper_def outcome_of_calls_def update_relayed_fst
          Let_def split: option.splits)
  qed
qed

lemma relayUnrelayedAcksHelper_agree:
  assumes "unrelayedAcknowledgements e' s sc sp (h - 1) d dc dp (h' - 1) cache =
      unrelayedAcknowledgements e s sc sp (h - 1) d dc dp (h' - 1) cache"
    and "\<And>sequences. relayAcknowledgements e' s sc sp h sequences d dc dp =
      relayAcknowledgements e s sc sp h sequences d dc dp"
  shows "relayUnrelayedAcksHelper e' s sc sp h d dc dp h' cache =
    relayUnrelayedAcksHelper e s sc sp h d dc dp h' cache"
  by (simp add: relayUnrelayedAcksHelper_def Let_def assms
      cong: prod.case_cong option.case_cong if_cong)

lemma relayUnrelayedPackets_result:
  assumes "QueryLatestHeights e = Inr (srch, dsth)"
  shows "fst (relayUnrelayedPackets e src dst c) =
     (if Empty (UnrelayedSequences e (srch - 1) (dsth - 1) c) then True
      else case RelayPackets e srch dsth (UnrelayedSequences e (srch - 1) (dsth - 1) c) c of
             None \<Rightarrow> True
           | Some err \<Rightarrow> fst (RelayPackets_failed err))"
  using assms
  by (simp add: relayUnrelayedPackets_def Let_def split: option.splits prod.splits)

lemma relayUnrelayedPackets_agree:
  assumes "QueryLatestHeights e = Inr (srch, dsth)"
    and "QueryLatestHeights e' = Inr (srch, dsth)"
    and "UnrelayedSequences e' (srch - 1) (dsth - 1) c =
      UnrelayedSequences e (srch - 1) (dsth - 1) c"
    and "\<And>sp. RelayPackets e' srch dsth sp c = RelayPackets e srch dsth sp c"
  shows "relayUnrelayedPackets e' src dst c = relayUnrelayedPackets e src dst c"
  by (simp add: relayUnrelayedPackets_def Let_def assms
      cong: prod.case_cong option.case_cong if_cong)

lemma relayUnrelayedAcks_agree:
  assumes "QueryLatestHeights e = Inr (srch, dsth)"
    and "QueryLatestHeights e' = Inr (srch, dsth)"
    and "relayUnrelayedAcksHelper e' src (ChannelId c) (PortId c) srch
           dst (CounterpartyChannelId (Counterparty c)) (CounterpartyPortId (Counterparty c))
           dsth cacheSrc =
         relayUnrelayedAcksHelper e src (ChannelId c) (PortId c) srch
           dst (CounterpartyChannelId (Counterparty c)) (CounterpartyPortId (Counterparty c))
           dsth cacheSrc"
    and "relayUnrelayedAcksHelper e'
           dst (CounterpartyChannelId (Counterparty c)) (CounterpartyPortId (Counterparty c))
           dsth src (ChannelId c) (PortId c) srch cacheDst =
         relayUnrelayedAcksHelper e
           dst (CounterpartyChannelId (Counterparty c)) (CounterpartyPortId (Counterparty c))
           dsth src (ChannelId c) (PortId c) srch cacheDst"
  shows "relayUnrelayedAcks e' src dst c cacheSrc cacheDst =
    relayUnrelayedAcks e src dst c cacheSrc cacheDst"
  by (simp add: relayUnrelayedAcks_def assms cong: prod.case_cong)

text \<open>
  C7. With \<open>(srch, dsth)\<close> the heights that \<open>QueryLatestHeights\<close> returned: a packet pass
  computes the unrelayed sequences with \<open>UnrelayedSequences\<close> at \<open>srch - 1\<close> and
  \<open>dsth - 1\<close> and submits them with \<open>RelayPackets\<close> at \<open>srch\<close> and \<open>dsth\<close>; each direction
  of an ack pass computes them with \<open>unrelayedAcknowledgements\<close> at the two heights of
  the direction decremented by one and submits them with \<open>relayAcknowledgements\<close> at the
  height of the direction's source chain as queried. What the pass returns is determined
  by the answers at these heights: environments that agree there give the same pass,
  whatever they answer at other heights.
\<close>

theorem sequences_at_previous_heights:
  assumes "QueryLatestHeights e = Inr (srch, dsth)"
  shows
    "fst (relayUnrelayedPackets e src dst c) =
       (if Empty (UnrelayedSequences e (srch - 1) (dsth - 1) c) then True
        else case RelayPackets e srch dsth (UnrelayedSequences e (srch - 1) (dsth - 1) c) c of
               None \<Rightarrow> True
             | Some err \<Rightarrow> fst (RelayPackets_failed err)) \<and>
     (\<forall>e'. QueryLatestHeights e' = Inr (srch, dsth) \<and>
        UnrelayedSequences e' (srch - 1) (dsth - 1) c =
          UnrelayedSequences e (srch - 1) (dsth - 1) c \<and>
        (\<forall>sp. RelayPackets e' srch dsth sp c = RelayPackets e srch dsth sp c) \<longrightarrow>
        relayUnrelayedPackets e' src dst c = relayUnrelayedPackets e src dst c) \<and>
     ok (relayUnrelayedAcks e src dst c cacheSrc cacheDst) =
       wait_both
         (outcome_of_calls
            (unrelayedAcknowledgements e src (ChannelId c) (PortId c) (srch - 1)
               dst (CounterpartyChannelId (Counterparty c))
               (CounterpartyPortId (Counterparty c)) (dsth - 1) cacheSrc)
            (\<lambda>sequences. relayAcknowledgements e src (ChannelId c) (PortId c) srch sequences
               dst (CounterpartyChannelId (Counterparty c))
               (CounterpartyPortId (Counterparty c))))
         (outcome_of_calls
            (unrelayedAcknowledgements e dst (CounterpartyChannelId (Counterparty c))
               (CounterpartyPortId (Counterparty c)) (dsth - 1)
               src (ChannelId c) (PortId c) (srch - 1) cacheDst)
            (\<lambda>sequences. relayAcknowledgements e dst (CounterpartyChannelId (Counterparty c))
               (CounterpartyPortId (Counterparty c)) dsth sequences
               src (ChannelId c) (PortId c))) \<and>
     (\<forall>e'. QueryLatestHeights e' = Inr (srch, dsth) \<and>
        unrelayedAcknowledgements e' src (ChannelId c) (PortId c) (srch - 1)
            dst (CounterpartyChannelId (Counterparty c))
            (CounterpartyPortId (Counterparty c)) (dsth - 1) cacheSrc =
          unrelayedAcknowledgements e src (ChannelId c) (PortId c) (srch - 1)
            dst (CounterpartyChannelId (Counterparty c))
            (CounterpartyPortId (Counterparty c)) (dsth - 1) cacheSrc \<and>
        unrelayedAcknowledgements e' dst (CounterpartyChannelId (Counterparty c))
            (CounterpartyPortId (Counterparty c)) (dsth - 1)
            src (ChannelId c) (PortId c) (srch - 1) cacheDst =
          unrelayedAcknowledgements e dst (CounterpartyChannelId (Counterparty c))
            (CounterpartyPortId (Counterparty c)) (dsth - 1)
            src (ChannelId c) (PortId c) (srch - 1) cacheDst \<and>
        (\<forall>sequences.
           relayAcknowledgements e' src (ChannelId c) (PortId c) srch sequences
             dst (CounterpartyChannelId (Counterparty c))
             (CounterpartyPortId (Counterparty c)) =
           relayAcknowledgements e src (ChannelId c) (PortId c) srch sequences
             dst (CounterpartyChannelId (Counterparty c))
             (CounterpartyPortId (Counterparty c))) \<and>
        (\<forall>sequences.
           relayAcknowledgements e' dst (CounterpartyChannelId (Counterparty c))
             (CounterpartyPortId (Counterparty c)) dsth sequences
             src (ChannelId c) (PortId c) =
           relayAcknowledgements e dst (CounterpartyChannelId (Counterparty c))
             (CounterpartyPortId (Counterparty c)) dsth sequences
             src (ChannelId c) (PortId c)) \<longrightarrow>
        relayUnrelayedAcks e' src dst c cacheSrc cacheDst =
          relayUnrelayedAcks e src dst c cacheSrc cacheDst)"
proof (intro conjI allI impI)
  show "fst (relayUnrelayedPackets e src dst c) =
       (if Empty (UnrelayedSequences e (srch - 1) (dsth - 1) c) then True
        else case RelayPackets e srch dsth (UnrelayedSequences e (srch - 1) (dsth - 1) c) c of
               None \<Rightarrow> True
             | Some err \<Rightarrow> fst (RelayPackets_failed err))"
    by (rule relayUnrelayedPackets_result [OF assms])
next
  fix e' :: env
  assume "QueryLatestHeights e' = Inr (srch, dsth) \<and>
        UnrelayedSequences e' (srch - 1) (dsth - 1) c =
          UnrelayedSequences e (srch - 1) (dsth - 1) c \<and>
        (\<forall>sp. RelayPackets e' srch dsth sp c = RelayPackets e srch dsth sp c)"
  then show "relayUnrelayedPackets e' src dst c = relayUnrelayedPackets e src dst c"
    by (intro relayUnrelayedPackets_agree [OF assms]) simp_all
next
  show "ok (relayUnrelayedAcks e src dst c cacheSrc cacheDst) =
       wait_both
         (outcome_of_calls
            (unrelayedAcknowledgements e src (ChannelId c) (PortId c) (srch - 1)
               dst (CounterpartyChannelId (Counterparty c))
               (CounterpartyPortId (Counterparty c)) (dsth - 1) cacheSrc)
            (\<lambda>sequences. relayAcknowledgements e src (ChannelId c) (PortId c) srch sequences
               dst (CounterpartyChannelId (Counterparty c))
               (CounterpartyPortId (Counterparty c))))
         (outcome_of_calls
            (unrelayedAcknowledgements e dst (CounterpartyChannelId (Counterparty c))
               (CounterpartyPortId (Counterparty c)) (dsth - 1)
               src (ChannelId c) (PortId c) (srch - 1) cacheDst)
            (\<lambda>sequences. relayAcknowledgements e dst (CounterpartyChannelId (Counterparty c))
               (CounterpartyPortId (Counterparty c)) dsth sequences
               src (ChannelId c) (PortId c)))"
    by (simp only: relayUnrelayedAcks_ok [OF assms] relayUnrelayedAcksHelper_outcome)
next
  fix e' :: env
  assume agree: "QueryLatestHeights e' = Inr (srch, dsth) \<and>
        unrelayedAcknowledgements e' src (ChannelId c) (PortId c) (srch - 1)
            dst (CounterpartyChannelId (Counterparty c))
            (CounterpartyPortId (Counterparty c)) (dsth - 1) cacheSrc =
          unrelayedAcknowledgements e src (ChannelId c) (PortId c) (srch - 1)
            dst (CounterpartyChannelId (Counterparty c))
            (CounterpartyPortId (Counterparty c)) (dsth - 1) cacheSrc \<and>
        unrelayedAcknowledgements e' dst (CounterpartyChannelId (Counterparty c))
            (CounterpartyPortId (Counterparty c)) (dsth - 1)
            src (ChannelId c) (PortId c) (srch - 1) cacheDst =
          unrelayedAcknowledgements e dst (CounterpartyChannelId (Counterparty c))
            (CounterpartyPortId (Counterparty c)) (dsth - 1)
            src (ChannelId c) (PortId c) (srch - 1) cacheDst \<and>
        (\<forall>sequences.
           relayAcknowledgements e' src (ChannelId c) (PortId c) srch sequences
             dst (CounterpartyChannelId (Counterparty c))
             (CounterpartyPortId (Counterparty c)) =
           relayAcknowledgements e src (ChannelId c) (PortId c) srch sequences
             dst (CounterpartyChannelId (Counterparty c))
             (CounterpartyPortId (Counterparty c))) \<and>
        (\<forall>sequences.
           relayAcknowledgements e' dst (CounterpartyChannelId (Counterparty c))
             (CounterpartyPortId (Counterparty c)) dsth sequences
             src (ChannelId c) (PortId c) =
           relayAcknowledgements e dst (CounterpartyChannelId (Counterparty c))
             (CounterpartyPortId (Counterparty c)) dsth sequences
             src (ChannelId c) (PortId c))"
  have src_dir: "relayUnrelayedAcksHelper e' src (ChannelId c) (PortId c) srch
           dst (CounterpartyChannelId (Counterparty c)) (CounterpartyPortId (Counterparty c))
           dsth cacheSrc =
         relayUnrelayedAcksHelper e src (ChannelId c) (PortId c) srch
           dst (CounterpartyChannelId (Counterparty c)) (CounterpartyPortId (Counterparty c))
           dsth cacheSrc"
    using agree by (intro relayUnrelayedAcksHelper_agree) simp_all
  have dst_dir: "relayUnrelayedAcksHelper e'
           dst (CounterpartyChannelId (Counterparty c)) (CounterpartyPortId (Counterparty c))
           dsth src (ChannelId c) (PortId c) srch cacheDst =
         relayUnrelayedAcksHelper e
           dst (CounterpartyChannelId (Counterparty c)) (CounterpartyPortId (Counterparty c))
           dsth src (ChannelId c) (PortId c) srch cacheDst"
    using agree by (intro relayUnrelayedAcksHelper_agree) simp_all
  from agree have "QueryLatestHeights e' = Inr (srch, dsth)"
    by simp
  from relayUnrelayedAcks_agree [OF assms this src_dir dst_dir]
  show "relayUnrelayedAcks e' src dst c cacheSrc cacheDst =
      relayUnrelayedAcks e src dst c cacheSrc cacheDst" .
qed

theorem sequences_at_previous_heights_witness:
  "\<not> fst (relayUnrelayedPackets height_env hub rollapp busy_channel) \<and>
   relayUnrelayedPackets indexing_env hub rollapp busy_channel =
     relayUnrelayedPackets height_env hub rollapp busy_channel \<and>
   ok (relayUnrelayedAcks height_env hub rollapp busy_channel [] []) = Return False \<and>
   relayUnrelayedAcks ack_error_env hub rollapp busy_channel [] [] =
     relayUnrelayedAcks height_env hub rollapp busy_channel [] []"
proof -
  have heights: "QueryLatestHeights height_env = Inr (10, 20)"
    by (simp add: height_env_def)
  note at_heights =
    sequences_at_previous_heights [OF heights, of hub rollapp busy_channel "[]" "[]"]
  have ids: "ChannelId busy_channel = ''channel-0''" "PortId busy_channel = ''transfer''"
    "CounterpartyChannelId (Counterparty busy_channel) = ''channel-9''"
    "CounterpartyPortId (Counterparty busy_channel) = ''transfer''"
    by (simp_all add: busy_channel_def example_channel_def)
  have chains: "hub \<noteq> rollapp"
    by (simp add: hub_def rollapp_def)
  have packets_rhs:
    "(if Empty (UnrelayedSequences height_env (10 - 1) (20 - 1) busy_channel) then True
      else case RelayPackets height_env 10 20
                  (UnrelayedSequences height_env (10 - 1) (20 - 1) busy_channel) busy_channel of
             None \<Rightarrow> True
           | Some err \<Rightarrow> fst (RelayPackets_failed err)) = False"
    by (simp add: height_env_def Empty_def RelayPackets_failed_def indexing_disabled_def
      fmt_Errorf_def)
  have p1: "\<not> fst (relayUnrelayedPackets height_env hub rollapp busy_channel)"
    using at_heights [THEN conjunct1] packets_rhs by simp
  have packets_agree:
    "QueryLatestHeights indexing_env = Inr (10, 20) \<and>
     UnrelayedSequences indexing_env (10 - 1) (20 - 1) busy_channel =
       UnrelayedSequences height_env (10 - 1) (20 - 1) busy_channel \<and>
     (\<forall>sp. RelayPackets indexing_env 10 20 sp busy_channel =
        RelayPackets height_env 10 20 sp busy_channel)"
    by (simp add: indexing_env_def example_env_def height_env_def)
  have p2: "relayUnrelayedPackets indexing_env hub rollapp busy_channel =
      relayUnrelayedPackets height_env hub rollapp busy_channel"
    using at_heights [THEN conjunct2, THEN conjunct1] packets_agree by blast
  have acks_rhs:
    "wait_both
       (outcome_of_calls
          (unrelayedAcknowledgements height_env hub (ChannelId busy_channel)
             (PortId busy_channel) (10 - 1) rollapp
             (CounterpartyChannelId (Counterparty busy_channel))
             (CounterpartyPortId (Counterparty busy_channel)) (20 - 1) [])
          (\<lambda>sequences. relayAcknowledgements height_env hub (ChannelId busy_channel)
             (PortId busy_channel) 10 sequences rollapp
             (CounterpartyChannelId (Counterparty busy_channel))
             (CounterpartyPortId (Counterparty busy_channel))))
       (outcome_of_calls
          (unrelayedAcknowledgements height_env rollapp
             (CounterpartyChannelId (Counterparty busy_channel))
             (CounterpartyPortId (Counterparty busy_channel)) (20 - 1)
             hub (ChannelId busy_channel) (PortId busy_channel) (10 - 1) [])
          (\<lambda>sequences. relayAcknowledgements height_env rollapp
             (CounterpartyChannelId (Counterparty busy_channel))
             (CounterpartyPortId (Counterparty busy_channel)) 20 sequences
             hub (ChannelId busy_channel) (PortId busy_channel))) = Return False"
    by (simp add: height_env_def outcome_of_calls_def wait_both_def chains)
  have p3: "ok (relayUnrelayedAcks height_env hub rollapp busy_channel [] []) = Return False"
    using at_heights [THEN conjunct2, THEN conjunct2, THEN conjunct1] acks_rhs by simp
  have acks_agree:
    "QueryLatestHeights ack_error_env = Inr (10, 20) \<and>
     unrelayedAcknowledgements ack_error_env hub (ChannelId busy_channel)
         (PortId busy_channel) (10 - 1) rollapp
         (CounterpartyChannelId (Counterparty busy_channel))
         (CounterpartyPortId (Counterparty busy_channel)) (20 - 1) [] =
       unrelayedAcknowledgements height_env hub (ChannelId busy_channel)
         (PortId busy_channel) (10 - 1) rollapp
         (CounterpartyChannelId (Counterparty busy_channel))
         (CounterpartyPortId (Counterparty busy_channel)) (20 - 1) [] \<and>
     unrelayedAcknowledgements ack_error_env rollapp
         (CounterpartyChannelId (Counterparty busy_channel))
         (CounterpartyPortId (Counterparty busy_channel)) (20 - 1)
         hub (ChannelId busy_channel) (PortId busy_channel) (10 - 1) [] =
       unrelayedAcknowledgements height_env rollapp
         (CounterpartyChannelId (Counterparty busy_channel))
         (CounterpartyPortId (Counterparty busy_channel)) (20 - 1)
         hub (ChannelId busy_channel) (PortId busy_channel) (10 - 1) [] \<and>
     (\<forall>sequences.
        relayAcknowledgements ack_error_env hub (ChannelId busy_channel)
          (PortId busy_channel) 10 sequences rollapp
          (CounterpartyChannelId (Counterparty busy_channel))
          (CounterpartyPortId (Counterparty busy_channel)) =
        relayAcknowledgements height_env hub (ChannelId busy_channel)
          (PortId busy_channel) 10 sequences rollapp
          (CounterpartyChannelId (Counterparty busy_channel))
          (CounterpartyPortId (Counterparty busy_channel))) \<and>
     (\<forall>sequences.
        relayAcknowledgements ack_error_env rollapp
          (CounterpartyChannelId (Counterparty busy_channel))
          (CounterpartyPortId (Counterparty busy_channel)) 20 sequences
          hub (ChannelId busy_channel) (PortId busy_channel) =
        relayAcknowledgements height_env rollapp
          (CounterpartyChannelId (Counterparty busy_channel))
          (CounterpartyPortId (Counterparty busy_channel)) 20 sequences
          hub (ChannelId busy_channel) (PortId busy_channel))"
    by (simp add: ack_error_env_def example_env_def height_env_def chains)
  have p4: "relayUnrelayedAcks ack_error_env hub rollapp busy_channel [] [] =
      relayUnrelayedAcks height_env hub rollapp busy_channel [] []"
    using at_heights [THEN conjunct2, THEN conjunct2, THEN conjunct2] acks_agree by blast
  from p1 p2 p3 p4 show ?thesis
    by (intro conjI)
qed

section \<open>Properties of the legacy scheduler\<close>

lemma length_filterOpenChannels_loop:
  "length (filterOpenChannels_loop cs m) \<le> length m + length cs"
proof (induction cs arbitrary: m)
  case Nil
  then show ?case by simp
next
  case (Cons c cs)
  have "length (AList.update k v m) \<le> Suc (length m)" for k and v :: ActiveChannel
    by (induction m) auto
  from this [of "ChannelId c" "\<lparr>channel = c, active = False\<rparr>"]
    Cons [of "AList.update (ChannelId c) \<lparr>channel = c, active = False\<rparr> m"] Cons [of m]
  show ?case
    by (simp split: if_splits)
qed

lemma length_filterOpenChannels: "length (filterOpenChannels cs) \<le> length cs"
  using length_filterOpenChannels_loop [of cs "[]"] by (simp add: filterOpenChannels_def)

lemma filterOpenChannels_loop_Nil:
  "filterOpenChannels_loop cs m = [] \<longleftrightarrow> m = [] \<and> (\<forall>c \<in> set cs. State c \<noteq> OPEN)"
  by (induction cs arbitrary: m) auto

lemma filterOpenChannels_Nil:
  "filterOpenChannels cs = [] \<longleftrightarrow> (\<forall>c \<in> set cs. State c \<noteq> OPEN)"
  by (simp add: filterOpenChannels_def filterOpenChannels_loop_Nil)

lemma set_update_inactive:
  "\<forall>p \<in> set m. \<not> active (snd p) \<Longrightarrow> \<not> active v \<Longrightarrow>
   \<forall>p \<in> set (AList.update k v m). \<not> active (snd p)"
  by (induction m) auto

lemma filterOpenChannels_loop_inactive:
  "\<forall>p \<in> set m. \<not> active (snd p) \<Longrightarrow>
   \<forall>p \<in> set (filterOpenChannels_loop cs m). \<not> active (snd p)"
proof (induction cs arbitrary: m)
  case Nil
  then show ?case by simp
next
  case (Cons c cs)
  show ?case
  proof (cases "State c = OPEN")
    case True
    have "\<forall>p \<in> set (AList.update (ChannelId c) \<lparr>channel = c, active = False\<rparr> m).
        \<not> active (snd p)"
      using Cons.prems by (intro set_update_inactive) simp_all
    from Cons.IH [OF this] True show ?thesis by simp
  next
    case False
    with Cons.IH [OF Cons.prems] show ?thesis by simp
  qed
qed

lemma filterOpenChannels_inactive:
  "\<forall>p \<in> set (filterOpenChannels cs). \<not> active (snd p)"
  using filterOpenChannels_loop_inactive [of "[]" cs] by (simp add: filterOpenChannels_def)

lemma spawn_loop_inactive:
  "\<forall>p \<in> set m. \<not> active (snd p) \<Longrightarrow>
   spawn_loop m = (map (\<lambda>p. (fst p, (snd p)\<lparr>active := True\<rparr>)) m, map (channel \<circ> snd) m)"
  by (induction m) (auto split: prod.splits)

lemma length_spawn_loop: "length (fst (spawn_loop m)) = length m"
  by (induction m) (auto split: prod.splits)

lemma length_map_entry: "length (AList.map_entry k f m) = length m"
  by (induction m) auto

lemma mainLoop_bound:
  "length (srcOpenChannels s) \<le> channels_cap s \<Longrightarrow>
   length (srcOpenChannels (scheduler_of (mainLoop evs s))) \<le> channels_cap s \<and>
   channels_cap (scheduler_of (mainLoop evs s)) = channels_cap s"
proof (induction evs arbitrary: s)
  case Nil
  then show ?case
    using length_spawn_loop [of "srcOpenChannels s"]
    by (auto simp: scheduler_of_def split: prod.splits)
next
  case (Cons ev evs)
  show ?case
  proof (cases "srcOpenChannels s = []")
    case True
    then show ?thesis by (simp add: scheduler_of_def)
  next
    case False
    obtain m gs where sp: "spawn_loop (srcOpenChannels s) = (m, gs)"
      by (cases "spawn_loop (srcOpenChannels s)")
    have len: "length m \<le> channels_cap s"
      using length_spawn_loop [of "srcOpenChannels s"] sp Cons.prems by simp
    show ?thesis
    proof (cases ev)
      case (Done err)
      with False sp len show ?thesis by (simp add: scheduler_of_def)
    next
      case (Received cid q)
      show ?thesis
      proof (cases q)
        case (Inl err)
        with Received False sp len show ?thesis
          by (simp add: scheduler_of_def length_map_entry)
      next
        case (Inr st)
        let ?m' = "if st \<noteq> OPEN
          then AList.delete cid (AList.map_entry cid (\<lambda>c. c\<lparr>active := False\<rparr>) m)
          else AList.map_entry cid (\<lambda>c. c\<lparr>active := False\<rparr>) m"
        let ?s' = "s\<lparr>srcOpenChannels := ?m', started := started s @ gs\<rparr>"
        have "length ?m' \<le> channels_cap s"
          using len
            length_delete_le [of cid "AList.map_entry cid (\<lambda>c. c\<lparr>active := False\<rparr>) m"]
          by (simp add: length_map_entry)
        then have "length (srcOpenChannels ?s') \<le> channels_cap ?s'"
          by simp
        from Cons.IH [OF this] Received Inr False sp show ?thesis
          by simp
      qed
    qed
  qed
qed

text \<open>
  C8. Whenever the map of open channels is empty at the top of the main loop, the
  scheduler sends the error \<open>there are no open channels to relay on\<close> on the failure
  channel and returns; no worker is started in that turn. At startup this is the case as
  soon as no channel that passes the filter is in state OPEN.
\<close>

theorem no_open_channels_is_terminal:
  "(srcOpenChannels s = [] \<longrightarrow>
      mainLoop evs s =
        Stopped (s\<lparr>errCh := errCh s @ [fmt_Errorf ''there are no open channels to relay on'']\<rparr>)) \<and>
   (\<forall>cs. queryChannelsOnConnection e = Inr cs \<and>
      (\<forall>c \<in> set (applyChannelFilterRule fltr cs). State c \<noteq> OPEN) \<longrightarrow>
      relayerMainLoop e src fltr evs =
        Stopped \<lparr>srcOpenChannels = [], channels_cap = length cs, started = [],
          errCh = [fmt_Errorf ''there are no open channels to relay on'']\<rparr>)"
  by (auto simp: relayerMainLoop_def filterOpenChannels_Nil [symmetric])

theorem no_open_channels_is_terminal_witness:
  "relayerMainLoop closed_env hub relay_all [Received ''channel-3'' (Inr OPEN)] =
     Stopped \<lparr>srcOpenChannels = [], channels_cap = 1, started = [],
       errCh = [fmt_Errorf ''there are no open channels to relay on'']\<rparr> \<and>
   mainLoop [Done context_canceled]
     \<lparr>srcOpenChannels = [], channels_cap = 4, started = [busy_channel], errCh = []\<rparr> =
     Stopped \<lparr>srcOpenChannels = [], channels_cap = 4, started = [busy_channel],
       errCh = [fmt_Errorf ''there are no open channels to relay on'']\<rparr>"
proof -
  have q: "queryChannelsOnConnection closed_env = Inr [example_channel ''channel-3'' CLOSED]"
    by (simp add: queryChannelsOnConnection_def closed_env_def)
  have none: "\<forall>c \<in> set (applyChannelFilterRule relay_all [example_channel ''channel-3'' CLOSED]).
      State c \<noteq> OPEN"
    by (simp add: applyChannelFilterRule_def relay_all_def allowList_def denyList_def
      example_channel_def)
  show ?thesis
    using
      no_open_channels_is_terminal [where
        s = "\<lparr>srcOpenChannels = [], channels_cap = 4, started = [busy_channel], errCh = []\<rparr>"
        and evs = "[Done context_canceled]"]
      no_open_channels_is_terminal [where e = closed_env and fltr = relay_all and src = hub
        and evs = "[Received ''channel-3'' (Inr OPEN)]"]
      q none
    by simp
qed

text \<open>
  C5, as stated, does not hold: the completion queue is made before the filter rule
  and the OPEN test are applied. With four channels on the connection, one of them
  CLOSED, and no filter, its capacity is four and three workers are started.
\<close>

theorem completion_queue_capacity_counterexample:
  "channels_cap (scheduler_of (relayerMainLoop discovery_env hub relay_all [])) = 4 \<and>
   started (scheduler_of (relayerMainLoop discovery_env hub relay_all [])) =
     [example_channel ''channel-0'' OPEN, example_channel ''channel-1'' OPEN,
      example_channel ''channel-5'' OPEN]"
  by (simp add: relayerMainLoop_def queryChannelsOnConnection_def discovery_env_def
      discovered_def relay_all_def applyChannelFilterRule_def allowList_def denyList_def
      filterOpenChannels_def example_channel_def scheduler_of_def)

text \<open>
  C5, amended. The completion queue of the legacy scheduler is created with buffer
  capacity equal to the number of channels that \<open>queryChannelsOnConnection\<close> returned,
  before the filter and the OPEN test. The workers initially started are one per entry of
  the map of open channels, so their number is at most that capacity, and the map never
  has more entries than the capacity while the scheduler runs.
\<close>

theorem completion_queue_capacity:
  assumes "queryChannelsOnConnection e = Inr cs"
  shows "channels_cap (scheduler_of (relayerMainLoop e src fltr evs)) = length cs \<and>
         length (srcOpenChannels (scheduler_of (relayerMainLoop e src fltr evs))) \<le> length cs \<and>
         started (scheduler_of (relayerMainLoop e src fltr [])) =
           map (channel \<circ> snd) (filterOpenChannels (applyChannelFilterRule fltr cs)) \<and>
         length (started (scheduler_of (relayerMainLoop e src fltr []))) \<le> length cs"
proof -
  let ?m = "filterOpenChannels (applyChannelFilterRule fltr cs)"
  let ?s = "\<lparr>srcOpenChannels = ?m, channels_cap = length cs, started = [], errCh = []\<rparr>"
  have run: "relayerMainLoop e src fltr evs' = mainLoop evs' ?s" for evs'
    using assms by (simp add: relayerMainLoop_def)
  have "length ?m \<le> length (applyChannelFilterRule fltr cs)"
    by (rule length_filterOpenChannels)
  also have "\<dots> \<le> length cs"
    by (simp add: applyChannelFilterRule_def allow_loop_filter deny_loop_filter)
  finally have len: "length ?m \<le> length cs" .
  then have "length (srcOpenChannels ?s) \<le> channels_cap ?s"
    by simp
  from mainLoop_bound [OF this, of evs]
  have bound: "channels_cap (scheduler_of (relayerMainLoop e src fltr evs)) = length cs \<and>
      length (srcOpenChannels (scheduler_of (relayerMainLoop e src fltr evs))) \<le> length cs"
    by (simp add: run)
  have first: "started (scheduler_of (relayerMainLoop e src fltr [])) = map (channel \<circ> snd) ?m"
    using spawn_loop_inactive [OF filterOpenChannels_inactive, of "applyChannelFilterRule fltr cs"]
    by (simp add: run scheduler_of_def)
  from bound first len show ?thesis
    by simp
qed

theorem completion_queue_capacity_witness:
  "channels_cap (scheduler_of (relayerMainLoop discovery_env hub
     \<lparr>Rule = allowList, ChannelList = [''channel-0'', ''channel-3'']\<rparr> [])) = 4 \<and>
   started (scheduler_of (relayerMainLoop discovery_env hub
     \<lparr>Rule = allowList, ChannelList = [''channel-0'', ''channel-3'']\<rparr> [])) =
     [example_channel ''channel-0'' OPEN]"
proof -
  have q: "queryChannelsOnConnection discovery_env = Inr discovered"
    by (simp add: queryChannelsOnConnection_def discovery_env_def)
  have len: "length discovered = 4"
    by (simp add: discovered_def)
  have m: "filterOpenChannels (applyChannelFilterRule
      \<lparr>Rule = allowList, ChannelList = [''channel-0'', ''channel-3'']\<rparr> discovered) =
      [(''channel-0'', \<lparr>channel = example_channel ''channel-0'' OPEN, active = False\<rparr>)]"
    by (simp add: applyChannelFilterRule_def InChannelList_def discovered_def
      filterOpenChannels_def example_channel_def)
  show ?thesis
    using completion_queue_capacity [OF q, of hub
        "\<lparr>Rule = allowList, ChannelList = [''channel-0'', ''channel-3'']\<rparr>" "[]"]
    by (simp add: m len)
qed

section \<open>Properties of the channel worker\<close>




end
